theory Spec2Isabelle
  imports Complex_Main
begin

section \<open>Strings of the host language\<close>

text \<open>
  The program is TypeScript. A host string is modelled as a \<^typ>\<open>string\<close>: one
  \<^typ>\<open>char\<close> stands for one code unit, so \<^const>\<open>length\<close> is the host's
  \<open>.length\<close>. The two line terminators that matter are line feed and carriage return.
\<close>

abbreviation LF :: char where "LF \<equiv> CHR 0x0A"
abbreviation CR :: char where "CR \<equiv> CHR 0x0D"

text \<open>\<open>s.startsWith(p)\<close>.\<close>

definition startsWith :: "string \<Rightarrow> string \<Rightarrow> bool" where
  "startsWith s p = (take (length p) s = p)"

text \<open>
  \<open>s.split(sep)\<close> for a non-empty separator string: the pieces between the
  non-overlapping occurrences of \<open>sep\<close>, found from the left. The empty string splits
  into one empty piece.
\<close>

function split :: "string \<Rightarrow> string \<Rightarrow> string list" where
  "split sep [] = [[]]"
| "split sep (c # cs) =
     (if sep \<noteq> [] \<and> startsWith (c # cs) sep
      then [] # split sep (drop (length sep) (c # cs))
      else (let r = split sep cs in (c # hd r) # tl r))"
  by pat_completeness auto
termination
  by (relation "measure (\<lambda>(sep, s). length s)") auto

text \<open>\<open>xs.join(sep)\<close>.\<close>

fun join :: "string \<Rightarrow> string list \<Rightarrow> string" where
  "join sep [] = []"
| "join sep [x] = x"
| "join sep (x # y # ys) = x @ sep @ join sep (y # ys)"

text \<open>\<open>xs.slice(start, end)\<close> for \<open>0 \<le> start\<close> and \<open>0 \<le> end\<close>.\<close>

definition slice :: "'a list \<Rightarrow> int \<Rightarrow> int \<Rightarrow> 'a list" where
  "slice xs start end = take (nat (end - start)) (drop (nat start) xs)"

text \<open>\<open>s.includes(sub)\<close>: \<open>sub\<close> occurs in \<open>s\<close> as a contiguous run.\<close>

fun str_includes :: "string \<Rightarrow> string \<Rightarrow> bool" where
  "str_includes [] sub = (sub = [])"
| "str_includes (c # cs) sub = (startsWith (c # cs) sub \<or> str_includes cs sub)"

text \<open>
  White space as \<open>\s\<close> and \<open>trim()\<close> see it, within the code units modelled: tab, line
  feed, vertical tab, form feed, carriage return, space and no-break space.
\<close>

definition isSpace :: "char \<Rightarrow> bool" where
  "isSpace c = (c \<in> set [CHR 0x09, LF, CHR 0x0B, CHR 0x0C, CR, CHR 0x20, CHR 0xA0])"

definition isLineTerminator :: "char \<Rightarrow> bool" where
  "isLineTerminator c = (c = LF \<or> c = CR)"

definition trim :: "string \<Rightarrow> string" where
  "trim s = rev (dropWhile isSpace (rev (dropWhile isSpace s)))"

section \<open>Hasher: \<open>src/hooks/utils/hashing.ts\<close>\<close>

text \<open>
  \<open>normalizeLineEndings\<close> is \<open>content.replace(/\r\n/g, "\n").replace(/\r/g, "\n")\<close>:
  two passes, the first over the pairs CR LF, the second over the remaining CR.
\<close>

fun replace_crlf :: "string \<Rightarrow> string" where
  "replace_crlf (c # d # cs) =
     (if c = CR \<and> d = LF then LF # replace_crlf cs else c # replace_crlf (d # cs))"
| "replace_crlf cs = cs"

definition replace_cr :: "string \<Rightarrow> string" where
  "replace_cr s = map (\<lambda>c. if c = CR then LF else c) s"

definition normalizeLineEndings :: "string \<Rightarrow> string" where
  "normalizeLineEndings content = replace_cr (replace_crlf content)"

text \<open>
  \<open>sha256\<close> normalises the line endings and hands the result to the platform's digest
  \<open>createHash("sha256").update(_, "utf8").digest("hex")\<close>. The digest is a library
  function outside the repository; it is the parameter \<open>H\<close> throughout.
\<close>

definition sha256 :: "(string \<Rightarrow> string) \<Rightarrow> string \<Rightarrow> string" where
  "sha256 H content = H (normalizeLineEndings content)"

text \<open>
  \<open>computeContentHash(content, startLine?, endLine?)\<close>; an omitted argument is
  \<^const>\<open>None\<close>.
\<close>

definition computeContentHash ::
  "(string \<Rightarrow> string) \<Rightarrow> string \<Rightarrow> int option \<Rightarrow> int option \<Rightarrow> string" where
  "computeContentHash H content startLine endLine =
     (case startLine of
        None \<Rightarrow> sha256 H content
      | Some s \<Rightarrow>
         (case endLine of
            None \<Rightarrow> sha256 H content
          | Some e \<Rightarrow>
             (let lines = split [LF] (normalizeLineEndings content);
                  start = max 0 (s - 1);
                  end = min (int (length lines)) e
              in if start \<ge> end then sha256 H []
                 else sha256 H (join [LF] (slice lines start end)))))"

text \<open>The number of lines of a content, after line-ending normalisation.\<close>

definition line_count :: "string \<Rightarrow> int" where
  "line_count x = int (length (split [LF] (normalizeLineEndings x)))"

section \<open>The platform\<close>

text \<open>
  Values of unknown shape, as \<open>JSON.parse\<close> returns them and as the validators receive
  them. An object is its list of properties; a missing property reads as \<open>undefined\<close>,
  which is \<^const>\<open>None\<close> here. The finite numbers are the integers, which is what line
  numbers are. The three values that \<open>typeof\<close> calls numbers and that are not finite
  are kept apart: \<open>JSON.stringify\<close> writes them as \<open>null\<close>.
\<close>

datatype nonfinite = NaN | PosInfinity | NegInfinity

datatype json =
    JNull
  | JBool bool
  | JNum int
  | JNonFinite nonfinite
  | JStr string
  | JArr "json list"
  | JObj "(string \<times> json) list"

text \<open>
  The library functions the program calls and the repository does not define: the
  SHA-256 digest in hexadecimal, the \<open>path\<close> module, and the JSON codec
  (\<open>JSON_parse\<close> is \<^const>\<open>None\<close> where \<open>JSON.parse\<close> throws).
\<close>

record platform =
  digest :: "string \<Rightarrow> string"
  path_isAbsolute :: "string \<Rightarrow> bool"
  path_resolve :: "string \<Rightarrow> string \<Rightarrow> string"
  path_normalize :: "string \<Rightarrow> string"
  path_relative :: "string \<Rightarrow> string \<Rightarrow> string"
  path_sep :: string
  path_join :: "string list \<Rightarrow> string"
  JSON_stringify :: "json \<Rightarrow> string"
  JSON_parse :: "string \<Rightarrow> json option"

text \<open>
  What the program throws: a file-system error carrying an errno \<open>code\<close>, or a plain
  \<open>new Error(message)\<close>, whose \<open>code\<close> is undefined.
\<close>

datatype js_error = ErrnoException string | Error string

text \<open>
  The disk, as far as the program sees it. A path holds nothing, a file with its
  content, a directory, or a node on which every operation is refused with the given
  errno code (permission denied, I/O error and the like).
\<close>

datatype fnode = Absent | File string | Directory | Faulty string

type_synonym disk = "string \<Rightarrow> fnode"

definition fs_readFile :: "disk \<Rightarrow> string \<Rightarrow> js_error + string" where
  "fs_readFile d p =
     (case d p of
        File s \<Rightarrow> Inr s
      | Absent \<Rightarrow> Inl (ErrnoException ''ENOENT'')
      | Directory \<Rightarrow> Inl (ErrnoException ''EISDIR'')
      | Faulty code \<Rightarrow> Inl (ErrnoException code))"

definition fs_appendFile :: "disk \<Rightarrow> string \<Rightarrow> string \<Rightarrow> js_error + disk" where
  "fs_appendFile d p data =
     (case d p of
        File s \<Rightarrow> Inr (d(p := File (s @ data)))
      | Absent \<Rightarrow> Inr (d(p := File data))
      | Directory \<Rightarrow> Inl (ErrnoException ''EISDIR'')
      | Faulty code \<Rightarrow> Inl (ErrnoException code))"

definition fs_writeFile :: "disk \<Rightarrow> string \<Rightarrow> string \<Rightarrow> js_error + disk" where
  "fs_writeFile d p data =
     (case d p of
        File s \<Rightarrow> Inr (d(p := File data))
      | Absent \<Rightarrow> Inr (d(p := File data))
      | Directory \<Rightarrow> Inl (ErrnoException ''EISDIR'')
      | Faulty code \<Rightarrow> Inl (ErrnoException code))"

definition fs_access :: "disk \<Rightarrow> string \<Rightarrow> js_error + unit" where
  "fs_access d p =
     (case d p of
        Absent \<Rightarrow> Inl (ErrnoException ''ENOENT'')
      | Faulty code \<Rightarrow> Inl (ErrnoException code)
      | _ \<Rightarrow> Inr ())"

text \<open>\<open>fs.mkdir(p, { recursive: true })\<close>.\<close>

definition fs_mkdir :: "disk \<Rightarrow> string \<Rightarrow> js_error + disk" where
  "fs_mkdir d p =
     (case d p of
        Absent \<Rightarrow> Inr (d(p := Directory))
      | Directory \<Rightarrow> Inr d
      | File s \<Rightarrow> Inl (ErrnoException ''EEXIST'')
      | Faulty code \<Rightarrow> Inl (ErrnoException code))"

section \<open>Trace model: \<open>src/hooks/models/trace.ts\<close>\<close>

datatype MutationClass = AST_REFACTOR | INTENT_EVOLUTION | BUG_FIX | DOCUMENTATION

fun mutation_class_name :: "MutationClass \<Rightarrow> string" where
  "mutation_class_name AST_REFACTOR = ''AST_REFACTOR''"
| "mutation_class_name INTENT_EVOLUTION = ''INTENT_EVOLUTION''"
| "mutation_class_name BUG_FIX = ''BUG_FIX''"
| "mutation_class_name DOCUMENTATION = ''DOCUMENTATION''"

definition MUTATION_CLASSES :: "string list" where
  "MUTATION_CLASSES = [''AST_REFACTOR'', ''INTENT_EVOLUTION'', ''BUG_FIX'', ''DOCUMENTATION'']"

record TraceRange =
  start_line :: int
  end_line :: int
  content_hash :: string

datatype EntityType = AI | HUMAN

record TraceContributor =
  entity_type :: EntityType
  model_identifier :: "string option"

datatype RelatedType = Specification | Requirement | Issue | Task

record TraceRelated =
  related_type :: RelatedType
  related_value :: string

record TraceConversation =
  url :: string
  contributor :: TraceContributor
  ranges :: "TraceRange list"
  related :: "TraceRelated list"

record TraceFile =
  relative_path :: string
  conversations :: "TraceConversation list"

record TraceEntry =
  entry_id :: string
  timestamp :: string
  vcs_revision_id :: string
  files :: "TraceFile list"
  mutation_class :: "MutationClass option"

text \<open>
  The object a typed entry is at run time, property by property in the order the
  interfaces and the object literals of the program give them. An optional property
  that is undefined is left out.
\<close>

definition range_json :: "TraceRange \<Rightarrow> json" where
  "range_json r =
     JObj [(''start_line'', JNum (start_line r)), (''end_line'', JNum (end_line r)),
           (''content_hash'', JStr (content_hash r))]"

fun entity_type_name :: "EntityType \<Rightarrow> string" where
  "entity_type_name AI = ''AI''"
| "entity_type_name HUMAN = ''HUMAN''"

definition contributor_json :: "TraceContributor \<Rightarrow> json" where
  "contributor_json c =
     JObj ((''entity_type'', JStr (entity_type_name (entity_type c))) #
           (case model_identifier c of
              None \<Rightarrow> []
            | Some m \<Rightarrow> [(''model_identifier'', JStr m)]))"

fun related_type_name :: "RelatedType \<Rightarrow> string" where
  "related_type_name Specification = ''specification''"
| "related_type_name Requirement = ''requirement''"
| "related_type_name Issue = ''issue''"
| "related_type_name Task = ''task''"

definition related_json :: "TraceRelated \<Rightarrow> json" where
  "related_json r =
     JObj [(''type'', JStr (related_type_name (related_type r))),
           (''value'', JStr (related_value r))]"

definition conversation_json :: "TraceConversation \<Rightarrow> json" where
  "conversation_json c =
     JObj [(''url'', JStr (url c)),
           (''contributor'', contributor_json (contributor c)),
           (''ranges'', JArr (map range_json (ranges c))),
           (''related'', JArr (map related_json (related c)))]"

definition file_json :: "TraceFile \<Rightarrow> json" where
  "file_json f =
     JObj [(''relative_path'', JStr (relative_path f)),
           (''conversations'', JArr (map conversation_json (conversations f)))]"

definition entry_json :: "TraceEntry \<Rightarrow> json" where
  "entry_json e =
     JObj ([(''id'', JStr (entry_id e)),
            (''timestamp'', JStr (timestamp e)),
            (''vcs'', JObj [(''revision_id'', JStr (vcs_revision_id e))]),
            (''files'', JArr (map file_json (files e)))] @
           (case mutation_class e of
              None \<Rightarrow> []
            | Some m \<Rightarrow> [(''mutation_class'', JStr (mutation_class_name m))]))"

text \<open>
  Reading a property of a value cast to \<open>Record<string, unknown>\<close>; none of the
  property names read below exists on a string, a number or an array.
\<close>

fun getProp :: "json \<Rightarrow> string \<Rightarrow> json option" where
  "getProp (JObj kvs) k = map_of kvs k"
| "getProp v k = None"

text \<open>\<open>!v\<close> is false.\<close>

fun truthy :: "json \<Rightarrow> bool" where
  "truthy JNull = False"
| "truthy (JBool b) = b"
| "truthy (JNum n) = (n \<noteq> 0)"
| "truthy (JNonFinite n) = (n \<noteq> NaN)"
| "truthy (JStr s) = (s \<noteq> [])"
| "truthy (JArr xs) = True"
| "truthy (JObj kvs) = True"

text \<open>The guard \<open>!r || typeof r !== "object"\<close> lets through objects and arrays.\<close>

fun isObject :: "json \<Rightarrow> bool" where
  "isObject (JArr xs) = True"
| "isObject (JObj kvs) = True"
| "isObject v = False"

fun isString :: "json option \<Rightarrow> bool" where
  "isString (Some (JStr s)) = True"
| "isString v = False"

fun isNumber :: "json option \<Rightarrow> bool" where
  "isNumber (Some (JNum n)) = True"
| "isNumber (Some (JNonFinite n)) = True"
| "isNumber v = False"

definition isValidTraceRange :: "json \<Rightarrow> bool" where
  "isValidTraceRange r =
     (if \<not> isObject r then False
      else isNumber (getProp r ''start_line'') \<and> isNumber (getProp r ''end_line'') \<and>
           isString (getProp r ''content_hash''))"

definition isValidTraceContributor :: "json \<Rightarrow> bool" where
  "isValidTraceContributor c =
     (if \<not> isObject c then False
      else (getProp c ''entity_type'' = Some (JStr ''AI'') \<or>
            getProp c ''entity_type'' = Some (JStr ''HUMAN'')) \<and>
           (getProp c ''model_identifier'' = None \<or> isString (getProp c ''model_identifier'')))"

definition isValidTraceRelated :: "json \<Rightarrow> bool" where
  "isValidTraceRelated r =
     (if \<not> isObject r then False
      else isString (getProp r ''type'') \<and> isString (getProp r ''value'') \<and>
           (case getProp r ''type'' of
              Some (JStr t) \<Rightarrow>
                t \<in> set [''specification'', ''requirement'', ''issue'', ''task'']
            | _ \<Rightarrow> False))"

definition isValidTraceConversation :: "json \<Rightarrow> bool" where
  "isValidTraceConversation c =
     (if \<not> isObject c then False
      else
        (case (getProp c ''url'', getProp c ''ranges'', getProp c ''related'') of
           (Some (JStr u), Some (JArr rs), Some (JArr rl)) \<Rightarrow>
             (case getProp c ''contributor'' of
                None \<Rightarrow> False
              | Some k \<Rightarrow>
                  if \<not> isValidTraceContributor k then False
                  else if \<not> list_all isValidTraceRange rs then False
                  else if \<not> list_all isValidTraceRelated rl then False
                  else True)
         | _ \<Rightarrow> False))"

definition isValidTraceFile :: "json \<Rightarrow> bool" where
  "isValidTraceFile f =
     (if \<not> isObject f then False
      else isString (getProp f ''relative_path'') \<and>
           (case getProp f ''conversations'' of
              Some (JArr cs) \<Rightarrow> list_all isValidTraceConversation cs
            | _ \<Rightarrow> False))"

definition isValidTraceEntry :: "json \<Rightarrow> bool" where
  "isValidTraceEntry entry =
     (if \<not> isObject entry then False
      else if \<not> isString (getProp entry ''id'') \<or> \<not> isString (getProp entry ''timestamp'') then False
      else if (case getProp entry ''vcs'' of
                 None \<Rightarrow> True
               | Some v \<Rightarrow> \<not> truthy v \<or> \<not> isString (getProp v ''revision_id'')) then False
      else
        (case getProp entry ''files'' of
           Some (JArr fs) \<Rightarrow>
             if \<not> list_all isValidTraceFile fs then False
             else
               (case getProp entry ''mutation_class'' of
                  None \<Rightarrow> True
                | Some m \<Rightarrow> m \<in> set (map JStr MUTATION_CLASSES))
         | _ \<Rightarrow> False))"

section \<open>Ledger writer: \<open>src/hooks/utils/traceStorage.ts\<close>\<close>

definition TRACE_FILE :: string where
  "TRACE_FILE = ''agent_trace.jsonl''"

definition getTracePath :: "platform \<Rightarrow> string \<Rightarrow> string" where
  "getTracePath P workspaceRoot = path_join P [workspaceRoot, ''.orchestration'', TRACE_FILE]"

text \<open>\<open>ensureOrchestrationDir\<close>: any failure of \<open>access\<close> leads to \<open>mkdir\<close>.\<close>

definition ensureOrchestrationDir :: "platform \<Rightarrow> string \<Rightarrow> disk \<Rightarrow> js_error + disk" where
  "ensureOrchestrationDir P workspaceRoot d =
     (let orchestrationPath = path_join P [workspaceRoot, ''.orchestration'']
      in case fs_access d orchestrationPath of
           Inr u \<Rightarrow> Inr d
         | Inl e \<Rightarrow> fs_mkdir d orchestrationPath)"

text \<open>
  \<open>appendToTraceLog\<close> returns what it throws, if anything, and the disk it leaves.
\<close>

definition appendToTraceLog ::
  "platform \<Rightarrow> string \<Rightarrow> json \<Rightarrow> disk \<Rightarrow> (js_error + unit) \<times> disk" where
  "appendToTraceLog P workspaceRoot entry d =
     (if \<not> isValidTraceEntry entry then (Inl (Error ''Invalid trace entry''), d)
      else
        (case ensureOrchestrationDir P workspaceRoot d of
           Inl e \<Rightarrow> (Inl e, d)
         | Inr d1 \<Rightarrow>
            (let tracePath = getTracePath P workspaceRoot;
                 line = JSON_stringify P entry @ [LF]
             in case fs_appendFile d1 tracePath line of
                  Inl e \<Rightarrow> (Inl e, d1)
                | Inr d2 \<Rightarrow> (Inr (), d2))))"

text \<open>
  \<open>readTraceLog\<close>: the lines that are not blank are parsed, a line that fails to parse
  becomes \<open>null\<close>, and the values that are not \<open>null\<close> and validate are returned. A
  read error with code \<open>ENOENT\<close> gives the empty list; any other is thrown again.
\<close>

definition parseLine :: "platform \<Rightarrow> string \<Rightarrow> json" where
  "parseLine P line = (case JSON_parse P line of Some v \<Rightarrow> v | None \<Rightarrow> JNull)"

definition readTraceLog :: "platform \<Rightarrow> string \<Rightarrow> disk \<Rightarrow> js_error + json list" where
  "readTraceLog P workspaceRoot d =
     (let tracePath = getTracePath P workspaceRoot
      in case fs_readFile d tracePath of
           Inr content \<Rightarrow>
             (let lines = filter (\<lambda>line. trim line \<noteq> []) (split [LF] content)
              in Inr (filter (\<lambda>entry. entry \<noteq> JNull \<and> isValidTraceEntry entry)
                        (map (parseLine P) lines)))
         | Inl e \<Rightarrow>
             (if e = ErrnoException ''ENOENT'' then Inr [] else Inl e))"

text \<open>The entries \<open>readTraceLog\<close> finds in a file of the given content.\<close>

definition ledgerEntries :: "platform \<Rightarrow> string \<Rightarrow> json list" where
  "ledgerEntries P content =
     filter (\<lambda>entry. entry \<noteq> JNull \<and> isValidTraceEntry entry)
       (map (parseLine P) (filter (\<lambda>line. trim line \<noteq> []) (split [LF] content)))"

section \<open>Snapshot store: \<open>src/hooks/utils/fileState.ts\<close>\<close>

record FileSnapshot =
  snap_hash :: string
  snap_agentId :: string
  snap_timestamp :: int
  snap_filePath :: string

text \<open>The tracker's private \<open>snapshots: Map<string, FileSnapshot>\<close>.\<close>

type_synonym snapshots = "string \<rightharpoonup> FileSnapshot"

text \<open>
  \<open>path.isAbsolute(filePath) ? filePath : path.resolve(workspaceRoot, filePath)\<close>, the
  expression every disk access of the tracker starts with.
\<close>

definition absolutePathOf :: "platform \<Rightarrow> string \<Rightarrow> string \<Rightarrow> string" where
  "absolutePathOf P filePath workspaceRoot =
     (if path_isAbsolute P filePath then filePath else path_resolve P workspaceRoot filePath)"

definition normalizePath :: "platform \<Rightarrow> string \<Rightarrow> string \<Rightarrow> string" where
  "normalizePath P filePath workspaceRoot =
     (let absolutePath = absolutePathOf P filePath workspaceRoot;
          normalized = path_normalize P absolutePath;
          relative = path_relative P workspaceRoot normalized
      in join ''/'' (split (path_sep P) relative))"

text \<open>\<open>takeSnapshot\<close> returns the hash and the map it leaves; \<open>now\<close> is \<open>Date.now()\<close>.\<close>

definition takeSnapshot ::
  "platform \<Rightarrow> string \<Rightarrow> string \<Rightarrow> string \<Rightarrow> string \<Rightarrow> int \<Rightarrow> snapshots
     \<Rightarrow> string \<times> snapshots" where
  "takeSnapshot P filePath content agentId workspaceRoot now snaps =
     (let normalizedPath = normalizePath P filePath workspaceRoot;
          hash = sha256 (digest P) content
      in (hash,
          snaps(normalizedPath \<mapsto>
            \<lparr>snap_hash = hash, snap_agentId = agentId, snap_timestamp = now,
             snap_filePath = normalizedPath\<rparr>)))"

definition takeSnapshotFromDisk ::
  "platform \<Rightarrow> string \<Rightarrow> string \<Rightarrow> string \<Rightarrow> int \<Rightarrow> disk \<Rightarrow> snapshots
     \<Rightarrow> (js_error + string) \<times> snapshots" where
  "takeSnapshotFromDisk P filePath agentId workspaceRoot now d snaps =
     (case fs_readFile d (absolutePathOf P filePath workspaceRoot) of
        Inl e \<Rightarrow> (Inl e, snaps)
      | Inr content \<Rightarrow>
          (case takeSnapshot P filePath content agentId workspaceRoot now snaps of
             (hash, snaps1) \<Rightarrow> (Inr hash, snaps1)))"

definition verifySnapshot ::
  "platform \<Rightarrow> string \<Rightarrow> string \<Rightarrow> string \<Rightarrow> disk \<Rightarrow> snapshots \<Rightarrow> bool" where
  "verifySnapshot P filePath agentId workspaceRoot d snaps =
     (let normalizedPath = normalizePath P filePath workspaceRoot
      in case snaps normalizedPath of
           None \<Rightarrow> True
         | Some snapshot \<Rightarrow>
            (case fs_readFile d (absolutePathOf P filePath workspaceRoot) of
               Inr currentContent \<Rightarrow>
                 (let currentHash = sha256 (digest P) currentContent
                  in currentHash = snap_hash snapshot)
             | Inl e \<Rightarrow> False))"

definition releaseSnapshot ::
  "platform \<Rightarrow> string \<Rightarrow> string \<Rightarrow> string \<Rightarrow> snapshots \<Rightarrow> snapshots" where
  "releaseSnapshot P filePath agentId workspaceRoot snaps =
     (let normalizedPath = normalizePath P filePath workspaceRoot
      in case snaps normalizedPath of
           None \<Rightarrow> snaps
         | Some snapshot \<Rightarrow>
             if snap_agentId snapshot = agentId then snaps(normalizedPath := None) else snaps)"

definition getStaleError :: "string \<Rightarrow> string \<Rightarrow> string" where
  "getStaleError filePath agentId =
     ''Stale File: '' @ filePath @
     '' has been modified by another agent. Please re-read the file and merge changes before writing.''"

text \<open>
  What the claims mean by a holder having a snapshot of a path: the map has an entry for
  the normalised path, and the entry names that holder.
\<close>

definition hasSnapshot :: "platform \<Rightarrow> snapshots \<Rightarrow> string \<Rightarrow> string \<Rightarrow> string \<Rightarrow> bool" where
  "hasSnapshot P snaps filePath agentId workspaceRoot =
     (case snaps (normalizePath P filePath workspaceRoot) of
        None \<Rightarrow> False
      | Some snapshot \<Rightarrow> snap_agentId snapshot = agentId)"

section \<open>Session registry: \<open>src/hooks/utils/agentSession.ts\<close>\<close>

record AgentSession =
  session_agentId :: string
  createdAt :: int
  lastActivity :: int
  session_intentId :: "string option"
  session_files :: "string set"

type_synonym sessions = "string \<rightharpoonup> AgentSession"

definition updateActivity :: "string \<Rightarrow> int \<Rightarrow> sessions \<Rightarrow> sessions" where
  "updateActivity agentId now ss =
     (case ss agentId of
        None \<Rightarrow> ss
      | Some session \<Rightarrow> ss(agentId \<mapsto> session\<lparr>lastActivity := now\<rparr>))"

definition addFile :: "string \<Rightarrow> string \<Rightarrow> int \<Rightarrow> sessions \<Rightarrow> sessions" where
  "addFile agentId filePath now ss =
     (case ss agentId of
        None \<Rightarrow> ss
      | Some session \<Rightarrow>
          updateActivity agentId now
            (ss(agentId \<mapsto> session\<lparr>session_files := insert filePath (session_files session)\<rparr>)))"

section \<open>Read pre-hook\<close>

text \<open>
  The tool arguments are of unknown shape at run time (\<open>[key: string]: unknown\<close>), and
  the hook tests them with \<open>typeof\<close> and \<open>Array.isArray\<close>.
\<close>

record FileReadPreHookArgs =
  read_path :: "json option"
  read_paths :: "json option"

record FileReadPreHookContext =
  read_agentId :: "string option"
  read_workspaceRoot :: "string option"

record FileReadPreHookResult =
  read_blocked :: bool

text \<open>
  The singletons the hook calls. Each call returns what it throws, if anything, and the
  state it leaves, so that the hook can be read against collaborators that fail at any
  point.
\<close>

record 's read_collaborators =
  do_updateActivity :: "string \<Rightarrow> 's \<Rightarrow> (js_error + unit) \<times> 's"
  do_takeSnapshotFromDisk :: "string \<Rightarrow> string \<Rightarrow> string \<Rightarrow> 's \<Rightarrow> (js_error + string) \<times> 's"
  do_addFile :: "string \<Rightarrow> string \<Rightarrow> 's \<Rightarrow> (js_error + unit) \<times> 's"

definition filesToSnapshot :: "FileReadPreHookArgs \<Rightarrow> string list" where
  "filesToSnapshot args =
     (case read_path args of
        Some (JStr p) \<Rightarrow> if p \<noteq> [] then [p] else []
      | _ \<Rightarrow> []) @
     (case read_paths args of
        Some (JArr ps) \<Rightarrow> concat (map (\<lambda>p. case p of JStr q \<Rightarrow> [q] | _ \<Rightarrow> []) ps)
      | _ \<Rightarrow> [])"

text \<open>The loop over the files; the inner \<open>try\<close> swallows what either call throws.\<close>

fun snapshotEach ::
  "'s read_collaborators \<Rightarrow> string \<Rightarrow> string \<Rightarrow> string list \<Rightarrow> 's \<Rightarrow> 's" where
  "snapshotEach K agentId workspaceRoot [] s = s"
| "snapshotEach K agentId workspaceRoot (filePath # rest) s =
     (case do_takeSnapshotFromDisk K filePath agentId workspaceRoot s of
        (Inl e, s1) \<Rightarrow> snapshotEach K agentId workspaceRoot rest s1
      | (Inr h, s1) \<Rightarrow>
          (case do_addFile K agentId filePath s1 of
             (r, s2) \<Rightarrow> snapshotEach K agentId workspaceRoot rest s2))"

definition fileReadPreHook_with ::
  "'s read_collaborators \<Rightarrow> FileReadPreHookArgs \<Rightarrow> FileReadPreHookContext \<Rightarrow> 's
     \<Rightarrow> FileReadPreHookResult \<times> 's" where
  "fileReadPreHook_with K args ctx s =
     (case read_agentId ctx of
        None \<Rightarrow> (\<lparr>read_blocked = False\<rparr>, s)
      | Some agentId \<Rightarrow>
         (case read_workspaceRoot ctx of
            None \<Rightarrow> (\<lparr>read_blocked = False\<rparr>, s)
          | Some workspaceRoot \<Rightarrow>
              if agentId = [] \<or> workspaceRoot = [] then (\<lparr>read_blocked = False\<rparr>, s)
              else
                (case do_updateActivity K agentId s of
                   (Inl e, s1) \<Rightarrow> (\<lparr>read_blocked = False\<rparr>, s1)
                 | (Inr u, s1) \<Rightarrow>
                     (let files = filesToSnapshot args
                      in if length files = 0 then (\<lparr>read_blocked = False\<rparr>, s1)
                         else (\<lparr>read_blocked = False\<rparr>,
                               snapshotEach K agentId workspaceRoot files s1)))))"

text \<open>The state the two singletons and the disk make up.\<close>

record world =
  w_disk :: disk
  w_snapshots :: snapshots
  w_sessions :: sessions

definition theCollaborators :: "platform \<Rightarrow> int \<Rightarrow> world read_collaborators" where
  "theCollaborators P now =
     \<lparr>do_updateActivity =
        (\<lambda>agentId w. (Inr (), w\<lparr>w_sessions := updateActivity agentId now (w_sessions w)\<rparr>)),
      do_takeSnapshotFromDisk =
        (\<lambda>filePath agentId workspaceRoot w.
           case takeSnapshotFromDisk P filePath agentId workspaceRoot now (w_disk w)
                  (w_snapshots w) of
             (r, snaps) \<Rightarrow> (r, w\<lparr>w_snapshots := snaps\<rparr>)),
      do_addFile =
        (\<lambda>agentId filePath w.
           (Inr (), w\<lparr>w_sessions := addFile agentId filePath now (w_sessions w)\<rparr>))\<rparr>"

definition fileReadPreHook ::
  "platform \<Rightarrow> int \<Rightarrow> FileReadPreHookArgs \<Rightarrow> FileReadPreHookContext \<Rightarrow> world
     \<Rightarrow> FileReadPreHookResult \<times> world" where
  "fileReadPreHook P now args ctx w = fileReadPreHook_with (theCollaborators P now) args ctx w"

section \<open>Write gatekeeper: \<open>src/hooks/preHooks/writeFile.ts\<close>\<close>

text \<open>
  Modelled from the spec: the type \<open>ActiveIntent\<close> of \<open>models/orchestration\<close>, which is
  not among the sources; the hook reads its \<open>name\<close> and its \<open>owned_scope\<close>, and the spec
  gives an intent an id, a display name and an owned scope.
\<close>

record ActiveIntent =
  intent_id :: string
  intent_name :: string
  owned_scope :: "string list option"

record WriteFilePreHookArgs =
  write_path :: string
  write_content :: string

record WriteFilePreHookContext =
  write_intentId :: "string option"
  write_workspaceRoot :: string
  write_ownedScope :: "string list option"
  write_agentId :: "string option"

record WriteFilePreHookResult =
  blocked :: bool
  error :: "string option"

text \<open>
  What the gatekeeper calls: the tracker's \<open>verifySnapshot\<close> (which may throw), and the
  intent catalog and the path matcher, whose modules (\<open>yamlLoader\<close>, \<open>pathMatcher\<close>) are
  not among the sources.
\<close>

record gate_collaborators =
  gate_verifySnapshot :: "string \<Rightarrow> string \<Rightarrow> string \<Rightarrow> js_error + bool"
  getCachedIntent :: "string \<Rightarrow> ActiveIntent option"
  findIntentById :: "string \<Rightarrow> string \<Rightarrow> ActiveIntent option"
  matchesAnyGlobPattern :: "string \<Rightarrow> string list \<Rightarrow> string \<Rightarrow> bool"

text \<open>A string that may be \<open>null\<close> or undefined is truthy when present and not empty.\<close>

fun present :: "string option \<Rightarrow> bool" where
  "present None = False"
| "present (Some s) = (s \<noteq> [])"

definition writeFilePreHook_with ::
  "gate_collaborators \<Rightarrow> WriteFilePreHookArgs \<Rightarrow> WriteFilePreHookContext
     \<Rightarrow> WriteFilePreHookResult" where
  "writeFilePreHook_with G args ctx =
     (let workspaceRoot = write_workspaceRoot ctx;
          ownedScope = write_ownedScope ctx;
          filePath = write_path args;
          stale =
            (case write_agentId ctx of
               None \<Rightarrow> None
             | Some agentId \<Rightarrow>
                 if agentId = [] then None
                 else
                   (case gate_verifySnapshot G filePath agentId workspaceRoot of
                      Inr isFileValid \<Rightarrow>
                        if \<not> isFileValid then Some (getStaleError filePath agentId) else None
                    | Inl e \<Rightarrow> None))
      in case stale of
           Some msg \<Rightarrow> \<lparr>blocked = True, error = Some msg\<rparr>
         | None \<Rightarrow>
            (case write_intentId ctx of
               None \<Rightarrow>
                 \<lparr>blocked = True,
                  error = Some ''You must cite a valid active Intent ID using select_active_intent before modifying files.''\<rparr>
             | Some intentId \<Rightarrow>
                 if intentId = [] then
                   \<lparr>blocked = True,
                    error = Some ''You must cite a valid active Intent ID using select_active_intent before modifying files.''\<rparr>
                 else
                   (let intent =
                          (case ownedScope of
                             Some sc \<Rightarrow>
                               (case getCachedIntent G intentId of
                                  Some i \<Rightarrow> Some i
                                | None \<Rightarrow> findIntentById G workspaceRoot intentId)
                           | None \<Rightarrow> findIntentById G workspaceRoot intentId)
                    in case intent of
                         None \<Rightarrow>
                           \<lparr>blocked = True,
                            error = Some (''Intent '' @ intentId @
                                          '' not found in .orchestration/active_intents.yaml'')\<rparr>
                       | Some i \<Rightarrow>
                          (let scope = (case ownedScope of Some sc \<Rightarrow> Some sc
                                        | None \<Rightarrow> owned_scope i)
                           in case scope of
                                None \<Rightarrow>
                                  \<lparr>blocked = True,
                                   error = Some (''Intent '' @ intentId @
                                     '' has no owned_scope defined. Cannot enforce scope boundaries.'')\<rparr>
                              | Some sc \<Rightarrow>
                                  if length sc = 0 then
                                    \<lparr>blocked = True,
                                     error = Some (''Intent '' @ intentId @
                                       '' has no owned_scope defined. Cannot enforce scope boundaries.'')\<rparr>
                                  else if \<not> matchesAnyGlobPattern G filePath sc workspaceRoot then
                                    \<lparr>blocked = True,
                                     error = Some (''Scope Violation: Intent '' @ [CHR 0x27] @
                                       intent_name i @ [CHR 0x27] @ '' ('' @ intentId @
                                       '') is not authorized to edit '' @ [CHR 0x27] @ filePath @
                                       [CHR 0x27] @
                                       ''. Request scope expansion or select a different intent.'')\<rparr>
                                  else \<lparr>blocked = False, error = None\<rparr>))))"

text \<open>The gatekeeper over the tracker and the disk as they stand.\<close>

definition writeFilePreHook ::
  "platform \<Rightarrow> (string \<Rightarrow> ActiveIntent option) \<Rightarrow> (string \<Rightarrow> string \<Rightarrow> ActiveIntent option)
     \<Rightarrow> (string \<Rightarrow> string list \<Rightarrow> string \<Rightarrow> bool) \<Rightarrow> disk \<Rightarrow> snapshots
     \<Rightarrow> WriteFilePreHookArgs \<Rightarrow> WriteFilePreHookContext \<Rightarrow> WriteFilePreHookResult" where
  "writeFilePreHook P cached lookup matches d snaps args ctx =
     writeFilePreHook_with
       \<lparr>gate_verifySnapshot =
          (\<lambda>filePath agentId workspaceRoot.
             Inr (verifySnapshot P filePath agentId workspaceRoot d snaps)),
        getCachedIntent = cached, findIntentById = lookup, matchesAnyGlobPattern = matches\<rparr>
       args ctx"

text \<open>
  The gatekeeper's algorithm as the specification words it: five steps in a fixed order,
  each passing or failing with its message, and the verdict is that of the first step
  that fails.
\<close>

definition resolvedIntent ::
  "gate_collaborators \<Rightarrow> WriteFilePreHookContext \<Rightarrow> ActiveIntent option" where
  "resolvedIntent G ctx =
     (case write_intentId ctx of
        None \<Rightarrow> None
      | Some intentId \<Rightarrow>
         (case write_ownedScope ctx of
            Some sc \<Rightarrow>
              (case getCachedIntent G intentId of
                 Some i \<Rightarrow> Some i
               | None \<Rightarrow> findIntentById G (write_workspaceRoot ctx) intentId)
          | None \<Rightarrow> findIntentById G (write_workspaceRoot ctx) intentId))"

definition effectiveScope ::
  "gate_collaborators \<Rightarrow> WriteFilePreHookContext \<Rightarrow> string list" where
  "effectiveScope G ctx =
     (case write_ownedScope ctx of
        Some sc \<Rightarrow> sc
      | None \<Rightarrow>
         (case resolvedIntent G ctx of
            None \<Rightarrow> []
          | Some i \<Rightarrow> (case owned_scope i of None \<Rightarrow> [] | Some sc \<Rightarrow> sc)))"

definition gateSteps ::
  "gate_collaborators \<Rightarrow> WriteFilePreHookArgs \<Rightarrow> WriteFilePreHookContext
     \<Rightarrow> (bool \<times> string) list" where
  "gateSteps G args ctx =
     (let filePath = write_path args;
          agentId = (case write_agentId ctx of None \<Rightarrow> [] | Some a \<Rightarrow> a);
          intentId = (case write_intentId ctx of None \<Rightarrow> [] | Some i \<Rightarrow> i);
          intentName = (case resolvedIntent G ctx of None \<Rightarrow> [] | Some i \<Rightarrow> intent_name i)
      in [(\<not> (present (write_agentId ctx) \<and>
               gate_verifySnapshot G filePath agentId (write_workspaceRoot ctx) = Inr False),
           getStaleError filePath agentId),
          (present (write_intentId ctx),
           ''You must cite a valid active Intent ID using select_active_intent before modifying files.''),
          (resolvedIntent G ctx \<noteq> None,
           ''Intent '' @ intentId @ '' not found in .orchestration/active_intents.yaml''),
          (effectiveScope G ctx \<noteq> [],
           ''Intent '' @ intentId @
           '' has no owned_scope defined. Cannot enforce scope boundaries.''),
          (matchesAnyGlobPattern G filePath (effectiveScope G ctx) (write_workspaceRoot ctx),
           ''Scope Violation: Intent '' @ [CHR 0x27] @ intentName @ [CHR 0x27] @ '' ('' @
           intentId @ '') is not authorized to edit '' @ [CHR 0x27] @ filePath @ [CHR 0x27] @
           ''. Request scope expansion or select a different intent.'')])"

fun firstFailure :: "(bool \<times> string) list \<Rightarrow> WriteFilePreHookResult" where
  "firstFailure [] = \<lparr>blocked = False, error = None\<rparr>"
| "firstFailure ((ok, msg) # rest) =
     (if ok then firstFailure rest else \<lparr>blocked = True, error = Some msg\<rparr>)"

section \<open>Mutation classifier: \<open>src/hooks/utils/mutationClassifier.ts\<close>\<close>

text \<open>
  \<open>removeComments\<close> applies three regular-expression replacements and trims. The first,
  \<open>/\/\*[\s\S]*?\*\//g\<close>, deletes from each \<open>/*\<close> to the first \<open>*/\<close> after it, and
  leaves a \<open>/*\<close> that is never closed.
\<close>

fun after_close :: "string \<Rightarrow> string option" where
  "after_close (c # d # cs) =
     (if c = CHR ''*'' \<and> d = CHR ''/'' then Some cs else after_close (d # cs))"
| "after_close cs = None"

function strip_block_comments :: "string \<Rightarrow> string" where
  "strip_block_comments [] = []"
| "strip_block_comments (c # cs) =
     (case (if startsWith (c # cs) ''/*'' then after_close (drop 2 (c # cs)) else None) of
        Some rest \<Rightarrow> strip_block_comments rest
      | None \<Rightarrow> c # strip_block_comments cs)"
  by pat_completeness auto
termination
proof (relation "measure length")
  have shorter: "after_close s = Some r \<Longrightarrow> length r < length s" for s r
    by (induction s rule: after_close.induct) (auto split: if_splits)
  show "wf (measure length)" by simp
  show "(rest, c # cs) \<in> measure length"
    if "(if startsWith (c # cs) ''/*'' then after_close (drop 2 (c # cs)) else None) = Some rest"
    for c cs rest
    using that by (auto dest!: shorter split: if_splits)
  show "(cs, c # cs) \<in> measure length" for c cs
    by simp
qed

text \<open>
  The second, \<open>/\/\/.*$/gm\<close>, deletes from each \<open>//\<close> to the end of its line; the line
  terminator stays.
\<close>

function strip_line_comments :: "string \<Rightarrow> string" where
  "strip_line_comments (c # d # cs) =
     (if c = CHR ''/'' \<and> d = CHR ''/''
      then strip_line_comments (dropWhile (\<lambda>x. \<not> isLineTerminator x) cs)
      else c # strip_line_comments (d # cs))"
| "strip_line_comments [c] = [c]"
| "strip_line_comments [] = []"
  by pat_completeness auto
termination
  by (relation "measure length")
     (auto simp: less_Suc_eq_le intro: le_trans [OF length_dropWhile_le])

text \<open>
  The third, \<open>/^\s*\*.*$/gm\<close>, matches at the start of the text or after a line
  terminator: a run of white space (which may span lines), an asterisk, and the rest of
  the asterisk's line. The flag says whether the position is at such a start.
\<close>

function strip_star_lines :: "bool \<Rightarrow> string \<Rightarrow> string" where
  "strip_star_lines bol [] = []"
| "strip_star_lines bol (c # cs) =
     (if bol \<and> startsWith (dropWhile isSpace (c # cs)) ''*''
      then strip_star_lines False
             (dropWhile (\<lambda>x. \<not> isLineTerminator x) (dropWhile isSpace (c # cs)))
      else c # strip_star_lines (isLineTerminator c) cs)"
  by pat_completeness auto
termination
proof (relation "measure (\<lambda>(bol, s). length s)")
  have shorter:
    "length (dropWhile (\<lambda>x. \<not> isLineTerminator x) (dropWhile isSpace s)) < length s"
    if a: "startsWith (dropWhile isSpace s) ''*''" for s
  proof -
    from a obtain t where t: "dropWhile isSpace s = CHR ''*'' # t"
      by (cases "dropWhile isSpace s") (auto simp: startsWith_def)
    have "length (dropWhile (\<lambda>x. \<not> isLineTerminator x) (CHR ''*'' # t)) \<le> length t"
      by (simp add: isLineTerminator_def length_dropWhile_le)
    moreover have "length (CHR ''*'' # t) \<le> length s"
      using length_dropWhile_le [of isSpace s] t by simp
    ultimately show ?thesis using t by simp
  qed
  show "wf (measure (\<lambda>(bol, s). length s))" by simp
  show "((False, dropWhile (\<lambda>x. \<not> isLineTerminator x) (dropWhile isSpace (c # cs))),
         (bol, c # cs)) \<in> measure (\<lambda>(bol, s). length s)"
    if "bol \<and> startsWith (dropWhile isSpace (c # cs)) ''*''" for bol c cs
    using that shorter [of "c # cs"] by (simp del: dropWhile.simps)
  show "((isLineTerminator c, cs), (bol, c # cs)) \<in> measure (\<lambda>(bol, s). length s)"
    for bol c cs
    by simp
qed

definition removeComments :: "string \<Rightarrow> string" where
  "removeComments code =
     trim (strip_star_lines True (strip_line_comments (strip_block_comments code)))"

definition isDocumentationChange :: "string \<Rightarrow> string \<Rightarrow> bool" where
  "isDocumentationChange oldContent newContent =
     (let oldCode = removeComments oldContent;
          newCode = removeComments newContent
      in oldCode = newCode \<and> oldContent \<noteq> newContent)"

text \<open>
  The three patterns carry the flag \<open>i\<close> and are tested unanchored: a pattern matches
  when one of the words of its language occurs in the text, letter case aside.
\<close>

definition toLower :: "char \<Rightarrow> char" where
  "toLower c =
     (let n = (of_char c :: nat) in if 65 \<le> n \<and> n \<le> 90 then char_of (n + 32) else c)"

definition BUG_FIX_PATTERNS :: "string list list" where
  "BUG_FIX_PATTERNS =
     [[''fix'', ''fixed'', ''fixes'', ''bug'', ''issue'', ''repair'', ''patch''],
      [''undefined'', ''null'', ''error'', ''exception'', ''crash''],
      [''should'', ''expected'', ''actual'', ''assert'']]"

definition pattern_test :: "string list \<Rightarrow> string \<Rightarrow> bool" where
  "pattern_test pattern text = list_ex (\<lambda>w. str_includes (map toLower text) w) pattern"

definition isBugFix :: "string \<Rightarrow> bool" where
  "isBugFix diff = list_ex (\<lambda>pattern. pattern_test pattern diff) BUG_FIX_PATTERNS"

text \<open>The text \<open>`+${added}\n-${removed}`\<close> that \<open>classifyMutation\<close> builds.\<close>

definition lineDiff :: "string \<Rightarrow> string \<Rightarrow> string" where
  "lineDiff oldContent newContent =
     (let lines = split [LF] newContent;
          oldLines = split [LF] oldContent;
          added = join [LF] (filter (\<lambda>l. l \<notin> set oldLines) lines);
          removed = join [LF] (filter (\<lambda>l. l \<notin> set lines) oldLines)
      in ''+'' @ added @ [LF] @ ''-'' @ removed)"

text \<open>
  The size test \<open>Math.abs(newContent.length - oldContent.length) / oldLen > 0.2\<close> is
  written over the rationals. The engine's strings are shorter than \<open>2^31\<close> code units,
  and a quotient of two such lengths that exceeds one fifth exceeds it by at least
  \<open>1 / (5 * 2^31)\<close>, far more than the rounding of the division and of the literal
  \<open>0.2\<close> in double precision; a quotient that does not exceed one fifth rounds to at
  most the literal. So the test over the doubles and the test over the rationals agree.
\<close>

definition classifyMutation :: "string \<Rightarrow> string \<Rightarrow> MutationClass" where
  "classifyMutation oldContent newContent =
     (if oldContent = newContent then DOCUMENTATION
      else if isDocumentationChange oldContent newContent then DOCUMENTATION
      else if isBugFix (lineDiff oldContent newContent) then BUG_FIX
      else
        (let oldLen = (if length oldContent = 0 then 1 else length oldContent);
             sizeChange =
               (of_int \<bar>int (length newContent) - int (length oldContent)\<bar> :: rat) /
               of_nat oldLen
         in if sizeChange > 2 / 10 then INTENT_EVOLUTION else AST_REFACTOR))"

fun mutation_class_of_name :: "string \<Rightarrow> MutationClass option" where
  "mutation_class_of_name s =
     (if s = ''AST_REFACTOR'' then Some AST_REFACTOR
      else if s = ''INTENT_EVOLUTION'' then Some INTENT_EVOLUTION
      else if s = ''BUG_FIX'' then Some BUG_FIX
      else if s = ''DOCUMENTATION'' then Some DOCUMENTATION
      else None)"

definition getMutationClass :: "string option \<Rightarrow> string \<Rightarrow> string \<Rightarrow> MutationClass" where
  "getMutationClass explicitClass oldContent newContent =
     (case explicitClass of
        None \<Rightarrow> classifyMutation oldContent newContent
      | Some x \<Rightarrow>
         (case (if x \<noteq> [] then mutation_class_of_name x else None) of
            Some m \<Rightarrow> m
          | None \<Rightarrow> classifyMutation oldContent newContent))"

section \<open>Revision probe: \<open>src/hooks/utils/git.ts\<close>\<close>

record CacheEntry =
  cache_revision :: string
  cache_timestamp :: int

type_synonym gitCache = "string \<rightharpoonup> CacheEntry"

text \<open>
  \<open>revParse root\<close> is the standard output of \<open>git rev-parse HEAD\<close> run in \<open>root\<close>, or
  \<^const>\<open>None\<close> when the call is rejected.
\<close>

definition getCurrentRevision ::
  "(string \<Rightarrow> string option) \<Rightarrow> string \<Rightarrow> int \<Rightarrow> gitCache \<Rightarrow> string \<times> gitCache" where
  "getCurrentRevision revParse workspaceRoot now cache =
     (case (case cache workspaceRoot of
              None \<Rightarrow> None
            | Some cached \<Rightarrow>
                if now - cache_timestamp cached < 5000 then Some (cache_revision cached)
                else None) of
        Some r \<Rightarrow> (r, cache)
      | None \<Rightarrow>
         (case revParse workspaceRoot of
            Some stdout \<Rightarrow>
              (let revision = trim stdout
               in (revision,
                   cache(workspaceRoot \<mapsto> \<lparr>cache_revision = revision, cache_timestamp = now\<rparr>)))
          | None \<Rightarrow>
              (''unknown'',
               cache(workspaceRoot \<mapsto>
                 \<lparr>cache_revision = ''unknown'', cache_timestamp = now\<rparr>))))"

section \<open>Intent map writer: \<open>src/hooks/utils/intentMap.ts\<close>\<close>

definition getMapPath :: "platform \<Rightarrow> string \<Rightarrow> string" where
  "getMapPath P workspaceRoot = path_join P [workspaceRoot, ''.orchestration'', ''intent_map.md'']"

text \<open>
  \<open>updateIntentMap\<close> reads the map file, rebuilds the markdown and writes it back. The
  disk accesses are modelled as written; the markdown the file is rebuilt to is the
  function \<open>rebuild\<close> of the old content (if there is a file), the intent and the path.
\<close>

definition updateIntentMap ::
  "platform \<Rightarrow> (string option \<Rightarrow> string \<Rightarrow> string \<Rightarrow> string) \<Rightarrow> string \<Rightarrow> string \<Rightarrow> string
     \<Rightarrow> disk \<Rightarrow> (js_error + unit) \<times> disk" where
  "updateIntentMap P rebuild workspaceRoot intentId filePath d =
     (case ensureOrchestrationDir P workspaceRoot d of
        Inl e \<Rightarrow> (Inl e, d)
      | Inr d1 \<Rightarrow>
         (let mapPath = getMapPath P workspaceRoot;
              old = (case fs_readFile d1 mapPath of
                       Inr content \<Rightarrow> Inr (Some content)
                     | Inl e \<Rightarrow> if e = ErrnoException ''ENOENT'' then Inr None else Inl e)
          in case old of
               Inl e \<Rightarrow> (Inl e, d1)
             | Inr content \<Rightarrow>
                (case fs_writeFile d1 mapPath (rebuild content intentId filePath) of
                   Inl e \<Rightarrow> (Inl e, d1)
                 | Inr d2 \<Rightarrow> (Inr (), d2))))"

section \<open>Post-write recorder: \<open>src/hooks/postHooks/writeFile.ts\<close>\<close>

record WriteFilePostHookArgs =
  post_path :: string
  post_content :: string
  post_mutation_class :: "string option"

record WriteFilePostHookContext =
  post_intentId :: "string option"
  post_workspaceRoot :: "string option"
  post_sessionId :: "string option"
  post_modelIdentifier :: "string option"
  post_oldContent :: "string option"
  post_agentId :: "string option"

text \<open>
  What one run of the hook reads from outside: \<open>uuidv4()\<close>, \<open>Date.now()\<close> as it prints
  in a template literal, \<open>new Date().toISOString()\<close>, the clock of the revision cache
  and the outcome of the revision command.
\<close>

record recorder_env =
  env_uuid :: string
  env_nowText :: string
  env_nowIso :: string
  env_now :: int
  env_revParse :: "string \<Rightarrow> string option"

record recorder_state =
  r_disk :: disk
  r_snapshots :: snapshots
  r_gitCache :: gitCache

definition isValidMutationClass :: "string \<Rightarrow> bool" where
  "isValidMutationClass v = (v \<in> set MUTATION_CLASSES)"

text \<open>The class the hook records.\<close>

definition resolveMutationClass ::
  "WriteFilePostHookArgs \<Rightarrow> WriteFilePostHookContext \<Rightarrow> MutationClass" where
  "resolveMutationClass args ctx =
     (case (case post_mutation_class args of
              None \<Rightarrow> None
            | Some x \<Rightarrow>
                if x \<noteq> [] \<and> isValidMutationClass x then mutation_class_of_name x else None) of
        Some m \<Rightarrow> m
      | None \<Rightarrow>
         (case post_oldContent ctx of
            Some oldContent \<Rightarrow>
              getMutationClass (post_mutation_class args) oldContent (post_content args)
          | None \<Rightarrow> AST_REFACTOR))"

text \<open>The entry the hook builds, from the line count to the object literal.\<close>

definition buildTraceEntry ::
  "platform \<Rightarrow> recorder_env \<Rightarrow> WriteFilePostHookArgs \<Rightarrow> WriteFilePostHookContext \<Rightarrow> string
     \<Rightarrow> string \<Rightarrow> TraceEntry" where
  "buildTraceEntry P env args ctx intentId revisionId =
     (let filePath = post_path args;
          content = post_content args;
          mutationClass = resolveMutationClass args ctx;
          lineCount = max 1 (int (length (split [LF] content)));
          contentHash = ''sha256:'' @ computeContentHash (digest P) content (Some 1) (Some lineCount);
          ranges = [\<lparr>start_line = 1, end_line = lineCount, content_hash = contentHash\<rparr>];
          conversation =
            \<lparr>url = (case post_sessionId ctx of
                      Some sid \<Rightarrow> sid
                    | None \<Rightarrow> ''session://'' @ env_nowText env),
             contributor =
               \<lparr>entity_type = AI,
                model_identifier =
                  Some (case post_modelIdentifier ctx of Some m \<Rightarrow> m | None \<Rightarrow> ''unknown'')\<rparr>,
             ranges = ranges,
             related = [\<lparr>related_type = Specification, related_value = intentId\<rparr>]\<rparr>;
          file = \<lparr>relative_path = filePath, conversations = [conversation]\<rparr>
      in \<lparr>entry_id = env_uuid env,
          timestamp = env_nowIso env,
          vcs_revision_id = revisionId,
          files = [file],
          mutation_class = Some mutationClass\<rparr>)"

text \<open>
  The hook returns nothing and throws nothing; its effect is the state it leaves. The
  outer \<open>try\<close> ends the run at the first call that throws, keeping what was done.
\<close>

definition writeFilePostHook ::
  "platform \<Rightarrow> (string option \<Rightarrow> string \<Rightarrow> string \<Rightarrow> string) \<Rightarrow> recorder_env
     \<Rightarrow> WriteFilePostHookArgs \<Rightarrow> WriteFilePostHookContext \<Rightarrow> recorder_state
     \<Rightarrow> recorder_state" where
  "writeFilePostHook P rebuild env args ctx st =
     (if \<not> present (post_intentId ctx) then st
      else
        (let intentId = (case post_intentId ctx of Some i \<Rightarrow> i | None \<Rightarrow> []);
             workspaceRoot = (case post_workspaceRoot ctx of Some r \<Rightarrow> r | None \<Rightarrow> []);
             filePath = post_path args
         in case getCurrentRevision (env_revParse env) workspaceRoot (env_now env)
                   (r_gitCache st) of
              (revisionId, cache1) \<Rightarrow>
                (let traceEntry = buildTraceEntry P env args ctx intentId revisionId;
                     st1 = st\<lparr>r_gitCache := cache1\<rparr>
                 in case appendToTraceLog P workspaceRoot (entry_json traceEntry) (r_disk st1) of
                      (Inl e, d1) \<Rightarrow> st1\<lparr>r_disk := d1\<rparr>
                    | (Inr u, d1) \<Rightarrow>
                       (case updateIntentMap P rebuild workspaceRoot intentId filePath d1 of
                          (Inl e, d2) \<Rightarrow> st1\<lparr>r_disk := d2\<rparr>
                        | (Inr u2, d2) \<Rightarrow>
                            if present (post_agentId ctx) \<and> workspaceRoot \<noteq> [] then
                              st1\<lparr>r_disk := d2,
                                  r_snapshots :=
                                    releaseSnapshot P filePath
                                      (case post_agentId ctx of Some a \<Rightarrow> a | None \<Rightarrow> [])
                                      workspaceRoot (r_snapshots st1)\<rparr>
                            else st1\<lparr>r_disk := d2\<rparr>))))"

section \<open>Lessons store: \<open>src/hooks/utils/claudeManager.ts\<close>\<close>

definition getClaudePath :: "platform \<Rightarrow> string \<Rightarrow> string" where
  "getClaudePath P workspaceRoot = path_join P [workspaceRoot, ''.orchestration'', ''CLAUDE.md'']"

definition getInitialHeader :: string where
  "getInitialHeader =
     ''# CLAUDE.md - Shared Project Knowledge'' @ [LF, LF] @
     ''This file contains lessons learned, patterns, and insights accumulated across all agent sessions.'' @
     [LF, LF] @ ''---'' @ [LF]"

definition readClaudeBrain :: "platform \<Rightarrow> string \<Rightarrow> disk \<Rightarrow> js_error + string" where
  "readClaudeBrain P workspaceRoot d =
     (case fs_readFile d (getClaudePath P workspaceRoot) of
        Inr content \<Rightarrow> Inr content
      | Inl e \<Rightarrow> if e = ErrnoException ''ENOENT'' then Inr [] else Inl e)"

definition appendToClaudeBrain ::
  "platform \<Rightarrow> string \<Rightarrow> string \<Rightarrow> disk \<Rightarrow> (js_error + unit) \<times> disk" where
  "appendToClaudeBrain P workspaceRoot content d =
     (case ensureOrchestrationDir P workspaceRoot d of
        Inl e \<Rightarrow> (Inl e, d)
      | Inr d1 \<Rightarrow>
         (let claudePath = getClaudePath P workspaceRoot
          in case fs_appendFile d1 claudePath content of
               Inr d2 \<Rightarrow> (Inr (), d2)
             | Inl e \<Rightarrow>
                 if e = ErrnoException ''ENOENT'' then
                   (case fs_writeFile d1 claudePath (getInitialHeader @ content) of
                      Inr d2 \<Rightarrow> (Inr (), d2)
                    | Inl e2 \<Rightarrow> (Inl e2, d1))
                 else (Inl e, d1)))"

text \<open>\<open>s.replace("T", " ")\<close> replaces the first occurrence only.\<close>

fun replaceFirst :: "char \<Rightarrow> char \<Rightarrow> string \<Rightarrow> string" where
  "replaceFirst a b [] = []"
| "replaceFirst a b (c # cs) = (if c = a then b # cs else c # replaceFirst a b cs)"

text \<open>\<open>formatLesson\<close>; \<open>nowIso\<close> is \<open>new Date().toISOString()\<close>.\<close>

definition formatLesson :: "string \<Rightarrow> string \<Rightarrow> string \<Rightarrow> string" where
  "formatLesson nowIso category lesson =
     (let timestamp = replaceFirst (CHR ''T'') (CHR '' '') (take 16 nowIso)
      in ''## ['' @ category @ ''] '' @ timestamp @ [LF] @ lesson @ [LF] @ ''---'' @ [LF])"

definition recordLesson ::
  "platform \<Rightarrow> string \<Rightarrow> string \<Rightarrow> string \<Rightarrow> string \<Rightarrow> disk \<Rightarrow> (js_error + bool) \<times> disk" where
  "recordLesson P nowIso workspaceRoot category lesson d =
     (case readClaudeBrain P workspaceRoot d of
        Inl e \<Rightarrow> (Inl e, d)
      | Inr existing \<Rightarrow>
         (let duplicate =
                (if existing \<noteq> [] then
                   (let sections = filter (\<lambda>s. trim s \<noteq> []) (split ''---'' existing);
                        recentLessons = join [LF] (drop (length sections - 5) sections)
                    in str_includes recentLessons (trim lesson))
                 else False)
          in if duplicate then (Inr False, d)
             else
               (case appendToClaudeBrain P workspaceRoot (formatLesson nowIso category lesson) d of
                  (Inl e, d1) \<Rightarrow> (Inl e, d1)
                | (Inr u, d1) \<Rightarrow> (Inr True, d1))))"

section \<open>The \<open>record_lesson\<close> tool: \<open>src/core/tools/recordLessonTool.ts\<close>\<close>

text \<open>The part of the task the tool touches.\<close>

record Task =
  consecutiveMistakeCount :: nat
  recordedToolErrors :: "string list"
  didToolFailInCurrentTurn :: bool
  cwd :: string

text \<open>
  What the tool hands to its callbacks: \<open>pushToolResult(formatResponse.toolError(m))\<close>,
  \<open>pushToolResult(formatResponse.toolResult(t))\<close>, and \<open>handleError(action, error)\<close>.
\<close>

datatype ToolOutput = ToolError string | ToolResult string | HandledError string js_error

record RecordLessonParams =
  param_category :: "string option"
  param_lesson :: "string option"

definition validCategories :: "string list" where
  "validCategories =
     [''ARCHITECTURE'', ''TESTING'', ''LINTER'', ''STYLE'', ''PERFORMANCE'', ''SECURITY'',
      ''GENERAL'']"

text \<open>The members of the type \<open>LessonCategory\<close> of the lessons store.\<close>

definition LessonCategory :: "string list" where
  "LessonCategory =
     [''ARCHITECTURE'', ''TESTING'', ''LINTER'', ''BUILD'', ''USER_FEEDBACK'', ''STYLE'',
      ''PERFORMANCE'', ''SECURITY'', ''GENERAL'']"

definition mistake :: "Task \<Rightarrow> Task" where
  "mistake t =
     t\<lparr>consecutiveMistakeCount := consecutiveMistakeCount t + 1,
       recordedToolErrors := recordedToolErrors t @ [''record_lesson''],
       didToolFailInCurrentTurn := True\<rparr>"

definition execute ::
  "platform \<Rightarrow> string \<Rightarrow> RecordLessonParams \<Rightarrow> Task \<Rightarrow> disk \<Rightarrow> Task \<times> disk \<times> ToolOutput list" where
  "execute P nowIso params t d =
     (if \<not> present (param_category params) \<or> \<not> present (param_lesson params) then
        (mistake t, d, [ToolError ''Missing category or lesson parameter''])
      else
        (let category = (case param_category params of Some c \<Rightarrow> c | None \<Rightarrow> []);
             lesson = (case param_lesson params of Some l \<Rightarrow> l | None \<Rightarrow> [])
         in if category \<notin> set validCategories then
              (mistake t, d,
               [ToolError (''Invalid category '' @ [CHR 0x27] @ category @ [CHR 0x27] @
                           ''. Must be one of: '' @ join '', '' validCategories)])
            else
              (case recordLesson P nowIso (cwd t) category lesson d of
                 (Inl e, d1) \<Rightarrow> (t, d1, [HandledError ''record lesson'' e])
               | (Inr recorded, d1) \<Rightarrow>
                   if recorded then
                     (t, d1, [ToolResult (''Lesson recorded in CLAUDE.md under ['' @ category @ '']'')])
                   else (t, d1, [ToolResult ''Lesson skipped (duplicate detected)'']))))"

section \<open>A platform for the worked examples\<close>

text \<open>
  The theorems below hold for every platform. Their worked examples run on this one:
  POSIX paths for inputs that need no normalising, a compact JSON serialiser, a parser
  that knows the serialisations of the values it is given, and, in place of SHA-256, a
  digest that returns its input (so that two digests are equal only for equal inputs).
\<close>

function show_nat :: "nat \<Rightarrow> string" where
  "show_nat n =
     (if n < 10 then [char_of (48 + n)] else show_nat (n div 10) @ [char_of (48 + n mod 10)])"
  by pat_completeness auto
termination
  by (relation "measure id") auto

definition show_int :: "int \<Rightarrow> string" where
  "show_int i = (if i < 0 then ''-'' @ show_nat (nat (- i)) else show_nat (nat i))"

definition quote :: "string \<Rightarrow> string" where
  "quote s =
     [CHR 0x22] @
     concat (map (\<lambda>c. if c = CHR 0x22 then [CHR 0x5C, CHR 0x22]
                        else if c = CHR 0x5C then [CHR 0x5C, CHR 0x5C]
                        else if c = LF then [CHR 0x5C, CHR ''n'']
                        else if c = CR then [CHR 0x5C, CHR ''r'']
                        else [c]) s) @
     [CHR 0x22]"

fun compactJson :: "json \<Rightarrow> string" where
  "compactJson JNull = ''null''"
| "compactJson (JBool b) = (if b then ''true'' else ''false'')"
| "compactJson (JNum n) = show_int n"
| "compactJson (JNonFinite n) = ''null''"
| "compactJson (JStr s) = quote s"
| "compactJson (JArr xs) = ''['' @ join '','' (map compactJson xs) @ '']''"
| "compactJson (JObj kvs) =
     ''{'' @ join '','' (map (\<lambda>kv. quote (fst kv) @ '':'' @ compactJson (snd kv)) kvs) @ ''}''"

definition parseKnown :: "json list \<Rightarrow> string \<Rightarrow> json option" where
  "parseKnown known s = List.find (\<lambda>v. compactJson v = s) known"

definition example_platform :: "json list \<Rightarrow> platform" where
  "example_platform known =
     \<lparr>digest = (\<lambda>s. s),
      path_isAbsolute = (\<lambda>p. startsWith p ''/''),
      path_resolve = (\<lambda>from p. from @ ''/'' @ p),
      path_normalize = (\<lambda>p. p),
      path_relative = (\<lambda>from p. drop (length from + 1) p),
      path_sep = ''/'',
      path_join = (\<lambda>parts. join ''/'' (filter (\<lambda>s. s \<noteq> []) parts)),
      JSON_stringify = compactJson,
      JSON_parse = parseKnown known\<rparr>"

text \<open>The entry the repository's ledger tests append.\<close>

definition example_entry :: TraceEntry where
  "example_entry =
     \<lparr>entry_id = ''550e8400-e29b-41d4-a716-446655440000'',
      timestamp = ''2026-02-21T12:00:00.000Z'',
      vcs_revision_id = ''abc123'',
      files =
        [\<lparr>relative_path = ''src/example.ts'',
          conversations =
            [\<lparr>url = ''session-1'',
              contributor = \<lparr>entity_type = AI, model_identifier = Some ''test-model''\<rparr>,
              ranges = [\<lparr>start_line = 1, end_line = 10, content_hash = ''sha256:deadbeef''\<rparr>],
              related = [\<lparr>related_type = Specification, related_value = ''INT-001''\<rparr>]\<rparr>]\<rparr>],
      mutation_class = Some INTENT_EVOLUTION\<rparr>"

text \<open>
  An entry as a caller may hand it to the ledger writer, with the given value as the
  \<open>start_line\<close> of its one range.
\<close>

definition entry_with_start_line :: "json \<Rightarrow> json" where
  "entry_with_start_line v =
     JObj [(''id'', JStr ''7c9e6679-7425-40de-944b-e07fc1f90ae7''),
           (''timestamp'', JStr ''2026-02-21T12:00:00.000Z''),
           (''vcs'', JObj [(''revision_id'', JStr ''abc123'')]),
           (''files'',
            JArr [JObj [(''relative_path'', JStr ''src/example.ts''),
                        (''conversations'',
                         JArr [JObj [(''url'', JStr ''session-1''),
                                     (''contributor'', JObj [(''entity_type'', JStr ''AI'')]),
                                     (''ranges'',
                                      JArr [JObj [(''start_line'', v),
                                                  (''end_line'', JNum 10),
                                                  (''content_hash'',
                                                   JStr ''sha256:deadbeef'')]]),
                                     (''related'', JArr [])]])]])]"

text \<open>An empty workspace: nothing on the disk.\<close>

definition empty_disk :: disk where
  "empty_disk = (\<lambda>p. Absent)"

text \<open>
  Collaborators for the gatekeeper's examples: a verification with a fixed outcome, a
  catalog that holds the one intent \<open>INT-001\<close> with the given scope, and a matcher that
  reads a pattern \<open>dir/**\<close> as the prefix \<open>dir/\<close>.
\<close>

definition example_gate :: "js_error + bool \<Rightarrow> string list \<Rightarrow> gate_collaborators" where
  "example_gate verdict scope =
     \<lparr>gate_verifySnapshot = (\<lambda>filePath agentId workspaceRoot. verdict),
      getCachedIntent = (\<lambda>intentId. None),
      findIntentById =
        (\<lambda>workspaceRoot intentId.
           if intentId = ''INT-001''
           then Some \<lparr>intent_id = ''INT-001'', intent_name = ''Example'',
                      owned_scope = Some scope\<rparr>
           else None),
      matchesAnyGlobPattern =
        (\<lambda>filePath patterns workspaceRoot.
           list_ex (\<lambda>pat. startsWith filePath (butlast (butlast pat))) patterns)\<rparr>"

text \<open>
  What a run of the recorder reads from outside in the examples: a fixed identifier and
  clock, and a workspace that is not under revision control.
\<close>

definition example_env :: recorder_env where
  "example_env =
     \<lparr>env_uuid = ''550e8400-e29b-41d4-a716-446655440000'',
      env_nowText = ''1771675200000'',
      env_nowIso = ''2026-02-21T12:00:00.000Z'',
      env_now = 1771675200000,
      env_revParse = (\<lambda>workspaceRoot. None)\<rparr>"

section \<open>Facts about strings\<close>

lemma split_nonempty: "split sep s \<noteq> []"
  by (induction sep s rule: split.induct) (auto simp: Let_def)

lemma join_Cons: "xs \<noteq> [] \<Longrightarrow> join sep (x # xs) = x @ sep @ join sep xs"
  by (cases xs) auto

lemma join_split: "join sep (split sep s) = s"
proof (induction sep s rule: split.induct)
  case (1 sep)
  show ?case by simp
next
  case (2 sep c cs)
  show ?case
  proof (cases "sep \<noteq> [] \<and> startsWith (c # cs) sep")
    case True
    then have "take (length sep) (c # cs) = sep"
      by (simp add: startsWith_def)
    then have "sep @ drop (length sep) (c # cs) = c # cs"
      by (metis append_take_drop_id)
    with True 2 show ?thesis
      by (simp add: join_Cons split_nonempty)
  next
    case False
    obtain x xs where r: "split sep cs = x # xs"
      using split_nonempty [of sep cs] by (cases "split sep cs") auto
    from False 2 have "join sep (split sep cs) = cs" by auto
    with False r show ?thesis
      by (cases xs) (auto simp: Let_def)
  qed
qed

lemma replace_crlf_no_cr: "CR \<notin> set s \<Longrightarrow> replace_crlf s = s"
  by (induction s rule: replace_crlf.induct) auto

lemma replace_cr_no_cr: "CR \<notin> set s \<Longrightarrow> replace_cr s = s"
  by (induction s) (auto simp: replace_cr_def)

lemma cr_notin_replace_cr: "CR \<notin> set (replace_cr s)"
  by (auto simp: replace_cr_def)

lemma normalizeLineEndings_idem:
  "normalizeLineEndings (normalizeLineEndings s) = normalizeLineEndings s"
  unfolding normalizeLineEndings_def
  by (simp add: replace_crlf_no_cr replace_cr_no_cr cr_notin_replace_cr)

lemma startsWith_single: "startsWith (c # cs) [d] = (c = d)"
  by (simp add: startsWith_def)

lemma split_single_append: "split [d] (a @ d # b) = split [d] a @ split [d] b"
proof (induction a)
  case Nil
  show ?case by (simp add: startsWith_single)
next
  case (Cons x a)
  obtain y ys where r: "split [d] a = y # ys"
    using split_nonempty [of "[d]" a] by (cases "split [d] a") auto
  with Cons show ?case
    by (simp add: startsWith_single Let_def)
qed

lemma split_single_none: "d \<notin> set s \<Longrightarrow> split [d] s = [s]"
  by (induction s) (auto simp: startsWith_single Let_def)

lemma trim_Nil: "trim [] = []"
  by (simp add: trim_def)

lemma computeContentHash_all_lines:
  "computeContentHash H x (Some 1) (Some (int (length (split [LF] (normalizeLineEndings x)))))
     = sha256 H x"
proof -
  let ?ls = "split [LF] (normalizeLineEndings x)"
  have ne: "?ls \<noteq> []" by (rule split_nonempty)
  then have pos: "0 < length ?ls" by simp
  have sl: "slice ?ls 0 (int (length ?ls)) = ?ls"
    by (simp add: slice_def)
  have "join [LF] ?ls = normalizeLineEndings x" by (rule join_split)
  with pos sl show ?thesis
    by (simp add: computeContentHash_def Let_def sha256_def normalizeLineEndings_idem)
qed

section \<open>The hasher's round trip\<close>

text \<open>
  Claim C6. For every string \<open>x\<close>, hashing the line range from 1 to the number of lines
  of \<open>x\<close> (counted after line-ending normalisation) gives the hash of the whole content:
  \<open>digest_range(x, 1, line_count(x)) = digest(x)\<close>, for any platform digest \<open>H\<close>.
\<close>

theorem digest_range_full_eq_digest:
  "computeContentHash H x (Some 1) (Some (line_count x)) = sha256 H x"
  unfolding line_count_def by (rule computeContentHash_all_lines)

text \<open>The same on the four-line content of the hasher's tests, with a carriage return added.\<close>

theorem digest_range_full_eq_digest_witness:
  "computeContentHash (\<lambda>s. s) (''line1'' @ [CR, LF] @ ''line2'' @ [LF] @ ''line3'' @ [CR] @ ''line4'')
     (Some 1) (Some 4) =
   sha256 (\<lambda>s. s) (''line1'' @ [CR, LF] @ ''line2'' @ [LF] @ ''line3'' @ [CR] @ ''line4'')"
proof -
  have "line_count (''line1'' @ [CR, LF] @ ''line2'' @ [LF] @ ''line3'' @ [CR] @ ''line4'') = 4"
    by code_simp
  with digest_range_full_eq_digest
         [of "\<lambda>s. s" "''line1'' @ [CR, LF] @ ''line2'' @ [LF] @ ''line3'' @ [CR] @ ''line4''"]
  show ?thesis by simp
qed

section \<open>The ledger\<close>

lemma fs_appendFile_code: "fs_appendFile d p x = Inl e \<Longrightarrow> \<exists>c. e = ErrnoException c"
  by (auto simp: fs_appendFile_def split: fnode.splits)

lemma fs_mkdir_code: "fs_mkdir d p = Inl e \<Longrightarrow> \<exists>c. e = ErrnoException c"
  by (auto simp: fs_mkdir_def split: fnode.splits)

lemma ensureOrchestrationDir_code:
  "ensureOrchestrationDir P ws d = Inl e \<Longrightarrow> \<exists>c. e = ErrnoException c"
  by (auto simp: ensureOrchestrationDir_def Let_def split: sum.splits dest: fs_mkdir_code)

lemma ensureOrchestrationDir_frame:
  "ensureOrchestrationDir P ws d = Inr d1 \<Longrightarrow> d1 p = d p \<or> d1 p = Directory"
  by (auto simp: ensureOrchestrationDir_def Let_def fs_mkdir_def
           split: sum.splits fnode.splits if_splits)

text \<open>
  Claim C10. When the trace log file does not exist, \<open>readTraceLog\<close> returns the empty
  list and raises nothing; a read that fails with any error other than \<open>ENOENT\<close> (a
  permission error, say) reaches the caller as that error.
\<close>

theorem readTraceLog_missing_or_failing:
  "(d (getTracePath P ws) = Absent \<longrightarrow> readTraceLog P ws d = Inr []) \<and>
   (\<forall>e. fs_readFile d (getTracePath P ws) = Inl e \<and> e \<noteq> ErrnoException ''ENOENT''
        \<longrightarrow> readTraceLog P ws d = Inl e)"
  by (simp add: readTraceLog_def fs_readFile_def Let_def)

text \<open>On an empty disk, and on one whose trace file refuses access.\<close>

theorem readTraceLog_missing_or_failing_witness:
  "empty_disk (getTracePath (example_platform []) ''/ws'') = Absent \<and>
   readTraceLog (example_platform []) ''/ws'' empty_disk = Inr [] \<and>
   fs_readFile (empty_disk(getTracePath (example_platform []) ''/ws'' := Faulty ''EACCES''))
     (getTracePath (example_platform []) ''/ws'') = Inl (ErrnoException ''EACCES'') \<and>
   ErrnoException ''EACCES'' \<noteq> ErrnoException ''ENOENT'' \<and>
   readTraceLog (example_platform []) ''/ws''
     (empty_disk(getTracePath (example_platform []) ''/ws'' := Faulty ''EACCES''))
     = Inl (ErrnoException ''EACCES'')"
proof -
  let ?P = "example_platform []"
  let ?tp = "getTracePath ?P ''/ws''"
  let ?d = "empty_disk(?tp := Faulty ''EACCES'')"
  have a: "empty_disk ?tp = Absent" by (simp add: empty_disk_def)
  have b: "fs_readFile ?d ?tp = Inl (ErrnoException ''EACCES'')"
    by (simp add: fs_readFile_def)
  have c: "ErrnoException ''EACCES'' \<noteq> ErrnoException ''ENOENT''" by simp
  from readTraceLog_missing_or_failing [of empty_disk ?P "''/ws''"] a
  have r1: "readTraceLog ?P ''/ws'' empty_disk = Inr []" by simp
  from readTraceLog_missing_or_failing [of ?d ?P "''/ws''"] b c
  have r2: "readTraceLog ?P ''/ws'' ?d = Inl (ErrnoException ''EACCES'')" by blast
  from a b c r1 r2 show ?thesis by simp
qed

lemma range_json_valid: "isValidTraceRange (range_json r)"
  by (simp add: isValidTraceRange_def range_json_def)

lemma contributor_json_valid: "isValidTraceContributor (contributor_json c)"
  by (cases "entity_type c"; cases "model_identifier c")
     (simp_all add: isValidTraceContributor_def contributor_json_def)

lemma related_json_valid: "isValidTraceRelated (related_json r)"
  by (cases "related_type r") (simp_all add: isValidTraceRelated_def related_json_def)

lemma conversation_json_valid: "isValidTraceConversation (conversation_json c)"
  by (simp add: isValidTraceConversation_def conversation_json_def contributor_json_valid
      list_all_iff range_json_valid related_json_valid)

lemma file_json_valid: "isValidTraceFile (file_json f)"
  by (simp add: isValidTraceFile_def file_json_def list_all_iff conversation_json_valid)

lemma entry_json_valid: "isValidTraceEntry (entry_json t)"
proof (cases "mutation_class t")
  case None
  then show ?thesis
    by (simp add: isValidTraceEntry_def entry_json_def list_all_iff file_json_valid)
next
  case (Some m)
  then show ?thesis
    by (cases m)
       (simp_all add: isValidTraceEntry_def entry_json_def list_all_iff file_json_valid
          MUTATION_CLASSES_def)
qed

text \<open>
  Claim C3, as the specification has it: \<open>appendToTraceLog\<close> raises and appends nothing
  whenever the entry has no files, or a range with \<open>start_line < 1\<close> or
  \<open>end_line < start_line\<close>, or a content hash that is not \<open>sha256:\<close> and 64 hexadecimal
  digits. The code checks none of these. An entry with an empty \<open>files\<close> list is
  appended, and so is one whose only range runs from line 0 to line -1 with the hash
  \<open>sha256:deadbeef\<close>; the repository's tests assert the first and use such hashes in
  their valid entries.
\<close>

theorem appendToTraceLog_accepts_schema_violations:
  "fst (appendToTraceLog (example_platform []) ''/ws''
          (entry_json \<lparr>entry_id = ''x'', timestamp = ''now'', vcs_revision_id = ''unknown'',
                       files = [], mutation_class = None\<rparr>)
          empty_disk) = Inr () \<and>
   fst (appendToTraceLog (example_platform []) ''/ws''
          (entry_json
             (example_entry\<lparr>files :=
                [\<lparr>relative_path = ''src/example.ts'',
                  conversations =
                    [\<lparr>url = ''session-1'',
                      contributor = \<lparr>entity_type = AI, model_identifier = None\<rparr>,
                      ranges = [\<lparr>start_line = 0, end_line = - 1,
                                 content_hash = ''sha256:deadbeef''\<rparr>],
                      related = []\<rparr>]\<rparr>]\<rparr>))
          empty_disk) = Inr ()"
  by code_simp

text \<open>
  Claim C3, amended. \<open>appendToTraceLog\<close> raises \<open>Error("Invalid trace entry")\<close> exactly
  when \<open>isValidTraceEntry\<close> rejects the value, and then leaves the disk as it was.
  \<open>isValidTraceEntry\<close> checks the shape only (the types of \<open>id\<close>, \<open>timestamp\<close>,
  \<open>vcs.revision_id\<close>, of the files, conversations, contributors, ranges and related
  items, and the name of a \<open>mutation_class\<close> that is present), so that every typed
  \<open>TraceEntry\<close> passes it, whatever its files, line numbers and hashes.
\<close>

theorem appendToTraceLog_rejects_exactly_the_malformed:
  "(fst (appendToTraceLog P ws e d) = Inl (Error ''Invalid trace entry'')
      \<longleftrightarrow> \<not> isValidTraceEntry e) \<and>
   (\<not> isValidTraceEntry e \<longrightarrow> snd (appendToTraceLog P ws e d) = d) \<and>
   isValidTraceEntry (entry_json t)"
  by (auto simp: appendToTraceLog_def Let_def entry_json_valid split: sum.splits
           dest: ensureOrchestrationDir_code fs_appendFile_code)

text \<open>
  The invalid entry of the repository's test, \<open>{ id: "x", timestamp: "now" }\<close>, on a disk
  that already holds a ledger.
\<close>

theorem appendToTraceLog_rejects_exactly_the_malformed_witness:
  "\<not> isValidTraceEntry (JObj [(''id'', JStr ''x''), (''timestamp'', JStr ''now'')]) \<and>
   appendToTraceLog (example_platform []) ''/ws''
     (JObj [(''id'', JStr ''x''), (''timestamp'', JStr ''now'')])
     (empty_disk(''/ws/.orchestration/agent_trace.jsonl'' := File ''{}''))
   = (Inl (Error ''Invalid trace entry''),
      empty_disk(''/ws/.orchestration/agent_trace.jsonl'' := File ''{}''))"
proof -
  let ?e = "JObj [(''id'', JStr ''x''), (''timestamp'', JStr ''now'')]"
  let ?d = "empty_disk(''/ws/.orchestration/agent_trace.jsonl'' := File ''{}'')"
  have inv: "\<not> isValidTraceEntry ?e"
    by (simp add: isValidTraceEntry_def)
  from appendToTraceLog_rejects_exactly_the_malformed
         [of "example_platform []" "''/ws''" ?e ?d example_entry] inv
  have "fst (appendToTraceLog (example_platform []) ''/ws'' ?e ?d)
          = Inl (Error ''Invalid trace entry'')"
    and "snd (appendToTraceLog (example_platform []) ''/ws'' ?e ?d) = ?d"
    by blast+
  with inv show ?thesis by (simp add: prod_eq_iff)
qed

lemma readTraceLog_File:
  "d (getTracePath P ws) = File c \<Longrightarrow> readTraceLog P ws d = Inr (ledgerEntries P c)"
  by (simp add: readTraceLog_def fs_readFile_def ledgerEntries_def Let_def)

lemma readTraceLog_Absent:
  "d (getTracePath P ws) = Absent \<Longrightarrow> readTraceLog P ws d = Inr []"
  by (simp add: readTraceLog_def fs_readFile_def Let_def)

lemma not_valid_JNull: "\<not> isValidTraceEntry JNull"
  by (simp add: isValidTraceEntry_def)

lemma ledgerEntries_append_line:
  assumes valid: "isValidTraceEntry e"
    and rt: "JSON_parse P s = Some e"
    and nolf: "LF \<notin> set s"
    and nonblank: "trim s \<noteq> []"
    and wf: "c = [] \<or> last c = LF"
  shows "ledgerEntries P (c @ s @ [LF]) = ledgerEntries P c @ [e]"
proof -
  have e_ne: "e \<noteq> JNull" using valid not_valid_JNull by auto
  have line: "split [LF] (s @ [LF]) = [s, []]"
    using split_single_append [of LF s "[]"] nolf by (simp add: split_single_none)
  have one: "ledgerEntries P (s @ [LF]) = [e]"
    using valid rt nonblank e_ne
    by (simp add: ledgerEntries_def line parseLine_def trim_Nil)
  show ?thesis
  proof (cases "c = []")
    case True
    then show ?thesis using one by (simp add: ledgerEntries_def trim_Nil)
  next
    case False
    with wf obtain c' where c: "c = c' @ [LF]"
      by (metis append_butlast_last_id)
    have a: "split [LF] c = split [LF] c' @ [[]]"
      using split_single_append [of LF c' "[]"] c by simp
    have b: "split [LF] (c @ s @ [LF]) = split [LF] c' @ [s, []]"
      using split_single_append [of LF c' "s @ [LF]"] c line by simp
    show ?thesis
      using valid rt nonblank e_ne
      by (simp add: ledgerEntries_def a b parseLine_def trim_Nil)
  qed
qed

text \<open>
  Claim C7, as the specification has it: for every valid entry and every prior state of
  the ledger, a read after a successful append ends with the entry. Two inputs show
  otherwise. When the trace file holds \<open>{}\<close> with no final newline, the appended line is
  glued onto that text, the line no longer parses, and the read returns no entry at
  all. When the \<open>start_line\<close> of a range is \<open>NaN\<close>, the validator accepts the entry (the
  value is a number to \<open>typeof\<close>), the serialisation writes \<open>null\<close> in its place, and the
  read drops the line as invalid. In both cases the entry is valid and the append
  succeeds.
\<close>

theorem append_then_read_loses_entry:
  "isValidTraceEntry (entry_json example_entry) \<and>
   fst (appendToTraceLog (example_platform [entry_json example_entry]) ''/ws''
          (entry_json example_entry)
          (empty_disk(''/ws/.orchestration/agent_trace.jsonl'' := File ''{}''))) = Inr () \<and>
   readTraceLog (example_platform [entry_json example_entry]) ''/ws''
     (snd (appendToTraceLog (example_platform [entry_json example_entry]) ''/ws''
             (entry_json example_entry)
             (empty_disk(''/ws/.orchestration/agent_trace.jsonl'' := File ''{}''))))
     = Inr [] \<and>
   isValidTraceEntry (entry_with_start_line (JNonFinite NaN)) \<and>
   fst (appendToTraceLog (example_platform [entry_with_start_line JNull]) ''/ws''
          (entry_with_start_line (JNonFinite NaN)) empty_disk) = Inr () \<and>
   JSON_parse (example_platform [entry_with_start_line JNull])
     (JSON_stringify (example_platform [entry_with_start_line JNull])
        (entry_with_start_line (JNonFinite NaN)))
     = Some (entry_with_start_line JNull) \<and>
   readTraceLog (example_platform [entry_with_start_line JNull]) ''/ws''
     (snd (appendToTraceLog (example_platform [entry_with_start_line JNull]) ''/ws''
             (entry_with_start_line (JNonFinite NaN)) empty_disk))
     = Inr []"
  by code_simp

text \<open>
  Claim C7, amended. Let the trace file be absent, empty or end with a newline (as it
  does after every append of \<open>appendToTraceLog\<close>; lines that are not entries may stand in
  it), and let \<open>e\<close> be a valid entry that the platform's JSON codec writes on one
  non-blank line and reads back as \<open>e\<close> (as \<open>JSON.stringify\<close> and \<open>JSON.parse\<close> do when
  the numbers of \<open>e\<close> are finite). After \<open>appendToTraceLog\<close> has succeeded, \<open>readTraceLog\<close>
  returns what it returned before, in the same order, followed by \<open>e\<close> as the last
  element.
\<close>

theorem append_then_read_ends_with_entry:
  assumes valid: "isValidTraceEntry e"
    and rt: "JSON_parse P (JSON_stringify P e) = Some e"
    and nolf: "LF \<notin> set (JSON_stringify P e)"
    and nonblank: "trim (JSON_stringify P e) \<noteq> []"
    and ledger: "\<forall>c. d (getTracePath P ws) = File c \<longrightarrow> c = [] \<or> last c = LF"
    and ok: "appendToTraceLog P ws e d = (Inr (), d')"
  shows "\<exists>prior. readTraceLog P ws d = Inr prior \<and>
                 readTraceLog P ws d' = Inr (prior @ [e])"
proof -
  let ?tp = "getTracePath P ws"
  let ?s = "JSON_stringify P e"
  from ok valid obtain d1 where
    ens: "ensureOrchestrationDir P ws d = Inr d1" and
    app: "fs_appendFile d1 ?tp (?s @ [LF]) = Inr d'"
    by (auto simp: appendToTraceLog_def Let_def split: sum.splits)
  from ensureOrchestrationDir_frame [OF ens, of ?tp]
  have fr: "d1 ?tp = d ?tp \<or> d1 ?tp = Directory" .
  show ?thesis
  proof (cases "d1 ?tp")
    case Absent
    with fr have "d ?tp = Absent" by auto
    moreover from app Absent have "d' ?tp = File (?s @ [LF])"
      by (auto simp: fs_appendFile_def)
    ultimately show ?thesis
      using ledgerEntries_append_line [OF valid rt nolf nonblank, of "[]"]
      by (simp add: readTraceLog_Absent readTraceLog_File ledgerEntries_def trim_Nil)
  next
    case (File c)
    with fr have dc: "d ?tp = File c" by auto
    with ledger have wf: "c = [] \<or> last c = LF" by simp
    from app File have "d' ?tp = File (c @ ?s @ [LF])"
      by (auto simp: fs_appendFile_def)
    with dc show ?thesis
      using ledgerEntries_append_line [OF valid rt nolf nonblank wf]
      by (simp add: readTraceLog_File)
  next
    case Directory
    with app show ?thesis by (simp add: fs_appendFile_def)
  next
    case (Faulty code)
    with app show ?thesis by (simp add: fs_appendFile_def)
  qed
qed

text \<open>
  The entry of the repository's ledger tests, appended to a ledger that holds a line
  that is not JSON and then the same entry under another id: the read returns the two
  entries in file order.
\<close>

theorem append_then_read_ends_with_entry_witness:
  "readTraceLog
     (example_platform [entry_json example_entry, entry_json (example_entry\<lparr>entry_id := ''a''\<rparr>)])
     ''/ws''
     (snd (appendToTraceLog
             (example_platform
                [entry_json example_entry, entry_json (example_entry\<lparr>entry_id := ''a''\<rparr>)])
             ''/ws'' (entry_json example_entry)
             (empty_disk(''/ws/.orchestration/agent_trace.jsonl'' :=
                File (''not json'' @ [LF] @
                      compactJson (entry_json (example_entry\<lparr>entry_id := ''a''\<rparr>)) @ [LF])))))
   = Inr [entry_json (example_entry\<lparr>entry_id := ''a''\<rparr>), entry_json example_entry]"
proof -
  let ?P = "example_platform
              [entry_json example_entry, entry_json (example_entry\<lparr>entry_id := ''a''\<rparr>)]"
  let ?e = "entry_json example_entry"
  let ?c = "''not json'' @ [LF] @
            compactJson (entry_json (example_entry\<lparr>entry_id := ''a''\<rparr>)) @ [LF]"
  let ?d = "empty_disk(''/ws/.orchestration/agent_trace.jsonl'' := File ?c)"
  let ?d' = "snd (appendToTraceLog ?P ''/ws'' ?e ?d)"
  have valid: "isValidTraceEntry ?e" by (rule entry_json_valid)
  have rt: "JSON_parse ?P (JSON_stringify ?P ?e) = Some ?e" by code_simp
  have nolf: "LF \<notin> set (JSON_stringify ?P ?e)" by code_simp
  have nonblank: "trim (JSON_stringify ?P ?e) \<noteq> []" by code_simp
  have tp: "getTracePath ?P ''/ws'' = ''/ws/.orchestration/agent_trace.jsonl''" by code_simp
  have ledger: "\<forall>c. ?d (getTracePath ?P ''/ws'') = File c \<longrightarrow> c = [] \<or> last c = LF"
    by (simp add: tp)
  have "fst (appendToTraceLog ?P ''/ws'' ?e ?d) = Inr ()" by code_simp
  then have ok: "appendToTraceLog ?P ''/ws'' ?e ?d = (Inr (), ?d')"
    by (simp add: prod_eq_iff)
  from append_then_read_ends_with_entry [OF valid rt nolf nonblank ledger ok]
  obtain prior where
    p1: "readTraceLog ?P ''/ws'' ?d = Inr prior" and
    p2: "readTraceLog ?P ''/ws'' ?d' = Inr (prior @ [?e])"
    by blast
  have "readTraceLog ?P ''/ws'' ?d = Inr [entry_json (example_entry\<lparr>entry_id := ''a''\<rparr>)]"
    by code_simp
  with p1 have "prior = [entry_json (example_entry\<lparr>entry_id := ''a''\<rparr>)]" by simp
  with p2 show ?thesis by simp
qed

text \<open>
  Every append leaves the trace file newline-terminated, so a ledger that only
  \<open>appendToTraceLog\<close> has written to is of the form the theorem asks for.
\<close>

lemma appendToTraceLog_keeps_lines_terminated:
  assumes ok: "appendToTraceLog P ws e d = (Inr (), d')"
  shows "\<exists>c. d' (getTracePath P ws) = File c \<and> c \<noteq> [] \<and> last c = LF"
proof -
  from ok obtain d1 where
    app: "fs_appendFile d1 (getTracePath P ws) (JSON_stringify P e @ [LF]) = Inr d'"
    by (auto simp: appendToTraceLog_def Let_def split: sum.splits if_splits)
  then show ?thesis
    by (cases "d1 (getTracePath P ws)") (auto simp: fs_appendFile_def)
qed

section \<open>The snapshot store\<close>

text \<open>
  Claim C1 says that a holder without a snapshot of a path always verifies, whatever
  other holders have captured. The tracker keeps one snapshot per path, not one per path
  and holder: after another holder \<open>h'\<close> has captured the path, a holder \<open>h\<close> that has no
  snapshot of its own is verified against the capture of \<open>h'\<close>, and fails as soon as the
  file no longer has that content or cannot be read.
\<close>

theorem verifySnapshot_reads_other_holders_snapshot:
  "h \<noteq> h' \<longrightarrow>
   \<not> hasSnapshot P (snd (takeSnapshot P p c0 h' ws now Map.empty)) p h ws \<and>
   verifySnapshot P p h ws d (snd (takeSnapshot P p c0 h' ws now Map.empty)) =
     (case fs_readFile d (absolutePathOf P p ws) of
        Inr cur \<Rightarrow> sha256 (digest P) cur = sha256 (digest P) c0
      | Inl e \<Rightarrow> False)"
  by (auto simp: hasSnapshot_def verifySnapshot_def takeSnapshot_def Let_def split: sum.splits)

text \<open>
  Holder \<open>a2\<close> reads \<open>src/a.ts\<close> when it holds \<open>x = 1\<close>; the file then changes to
  \<open>x = 2\<close>; holder \<open>a1\<close>, which never read the file, is refused.
\<close>

theorem verifySnapshot_reads_other_holders_snapshot_witness:
  "''a1'' \<noteq> ''a2'' \<and>
   \<not> hasSnapshot (example_platform [])
        (snd (takeSnapshot (example_platform []) ''src/a.ts'' (''x = 1'' @ [LF]) ''a2'' ''/ws'' 0
                Map.empty))
        ''src/a.ts'' ''a1'' ''/ws'' \<and>
   verifySnapshot (example_platform []) ''src/a.ts'' ''a1'' ''/ws''
     (\<lambda>q. if q = ''/ws/src/a.ts'' then File (''x = 2'' @ [LF]) else Absent)
     (snd (takeSnapshot (example_platform []) ''src/a.ts'' (''x = 1'' @ [LF]) ''a2'' ''/ws'' 0
             Map.empty)) = False"
proof -
  let ?P = "example_platform []"
  let ?d = "\<lambda>q. if q = ''/ws/src/a.ts'' then File (''x = 2'' @ [LF]) else Absent"
  have ne: "''a1'' \<noteq> ''a2''" by simp
  have ev: "(case fs_readFile ?d (absolutePathOf ?P ''src/a.ts'' ''/ws'') of
               Inr cur \<Rightarrow> sha256 (digest ?P) cur = sha256 (digest ?P) (''x = 1'' @ [LF])
             | Inl e \<Rightarrow> False) = False"
    by code_simp
  from verifySnapshot_reads_other_holders_snapshot
         [of "''a1''" "''a2''" ?P "''src/a.ts''" "''x = 1'' @ [LF]" "''/ws''" 0 ?d]
  show ?thesis using ne ev by simp
qed

section \<open>The read pre-hook\<close>

lemma fileReadPreHook_with_never_blocks:
  "read_blocked (fst (fileReadPreHook_with K args ctx s)) = False"
  by (simp add: fileReadPreHook_with_def Let_def split: option.splits prod.splits sum.splits)

text \<open>
  Claim C9. The read pre-hook returns \<open>{blocked: false}\<close> for every combination of
  arguments and context: with the agent id or the workspace root missing or empty, with
  a file that cannot be read, and with collaborators (session registry, snapshot store)
  that throw at any call. It holds for the hook over arbitrary collaborators and so for
  the hook over the two singletons.
\<close>

theorem fileReadPreHook_never_blocks:
  "read_blocked (fst (fileReadPreHook_with K args ctx s)) = False \<and>
   read_blocked (fst (fileReadPreHook P now args' ctx' w)) = False"
  by (simp add: fileReadPreHook_def fileReadPreHook_with_never_blocks)

text \<open>
  A read of two paths on an empty disk, none of which exists, and a read through
  collaborators that always throw.
\<close>

theorem fileReadPreHook_never_blocks_witness:
  "fst (fileReadPreHook (example_platform []) 0
          \<lparr>read_path = Some (JStr ''src/a.ts''), read_paths = Some (JArr [JStr ''src/b.ts''])\<rparr>
          \<lparr>read_agentId = Some ''agent-1'', read_workspaceRoot = Some ''/ws''\<rparr>
          \<lparr>w_disk = empty_disk, w_snapshots = Map.empty, w_sessions = Map.empty\<rparr>)
     = \<lparr>read_blocked = False\<rparr> \<and>
   fst (fileReadPreHook_with
          \<lparr>do_updateActivity = (\<lambda>a s. (Inl (Error ''boom''), s)),
           do_takeSnapshotFromDisk = (\<lambda>f a r s. (Inl (Error ''boom''), s)),
           do_addFile = (\<lambda>a f s. (Inl (Error ''boom''), s))\<rparr>
          \<lparr>read_path = Some (JStr ''src/a.ts''), read_paths = None\<rparr>
          \<lparr>read_agentId = Some ''agent-1'', read_workspaceRoot = Some ''/ws''\<rparr>
          (0::nat))
     = \<lparr>read_blocked = False\<rparr>"
  using fileReadPreHook_never_blocks
          [of "\<lparr>do_updateActivity = (\<lambda>a s. (Inl (Error ''boom''), s)),
                do_takeSnapshotFromDisk = (\<lambda>f a r s. (Inl (Error ''boom''), s)),
                do_addFile = (\<lambda>a f s. (Inl (Error ''boom''), s))\<rparr>"
              "\<lparr>read_path = Some (JStr ''src/a.ts''), read_paths = None\<rparr>"
              "\<lparr>read_agentId = Some ''agent-1'', read_workspaceRoot = Some ''/ws''\<rparr>"
              "0::nat"
              "example_platform []" 0
              "\<lparr>read_path = Some (JStr ''src/a.ts''), read_paths = Some (JArr [JStr ''src/b.ts''])\<rparr>"
              "\<lparr>read_agentId = Some ''agent-1'', read_workspaceRoot = Some ''/ws''\<rparr>"
              "\<lparr>w_disk = empty_disk, w_snapshots = Map.empty, w_sessions = Map.empty\<rparr>"]
  by (simp add: FileReadPreHookResult.equality)

section \<open>The write gatekeeper\<close>

text \<open>
  Claim C4. The verdict of the write gatekeeper is that of the first failing step of the
  fixed sequence: (1) the optimistic snapshot check, made when an agent id is present,
  which blocks with the stale-file message when the verification is false and does not
  block when the verification raises; (2) an intent id is present; (3) the intent
  resolves; (4) the owned scope is not empty; (5) the path matches the scope. The
  gatekeeper returns \<open>{blocked: false}\<close> only when all five steps pass. It holds for any
  verification function, catalog and matcher, and so for the gatekeeper over the
  tracker.
\<close>

theorem gatekeeper_verdict_is_first_failing_step:
  "writeFilePreHook_with G args ctx = firstFailure (gateSteps G args ctx) \<and>
   (blocked (writeFilePreHook_with G args ctx) = False
      \<longleftrightarrow> list_all fst (gateSteps G args ctx)) \<and>
   writeFilePreHook P cached lookup matches d snaps args ctx =
     firstFailure
       (gateSteps
          \<lparr>gate_verifySnapshot =
             (\<lambda>filePath agentId workspaceRoot.
                Inr (verifySnapshot P filePath agentId workspaceRoot d snaps)),
           getCachedIntent = cached, findIntentById = lookup,
           matchesAnyGlobPattern = matches\<rparr>
          args ctx)"
proof -
  have eq: "writeFilePreHook_with G args ctx = firstFailure (gateSteps G args ctx)" for G
    by (cases "write_agentId ctx"; cases "write_intentId ctx"; cases "write_ownedScope ctx")
       (auto simp: writeFilePreHook_with_def gateSteps_def resolvedIntent_def
          effectiveScope_def Let_def
          split: option.splits sum.splits)
  have pass: "(\<not> blocked (firstFailure steps)) = list_all fst steps" for steps
    by (induction steps) (auto split: if_splits)
  show ?thesis
    by (simp add: eq pass writeFilePreHook_def)
qed

text \<open>
  Scenario S3: the intent owns \<open>src/api/**\<close> and the agent writes \<open>src/db/x.ts\<close>, here
  with a verification that raises; the first failing step is the fifth. Scenario S1:
  the intent owns \<open>src/**\<close>, the agent writes \<open>src/a.ts\<close> and the verification is true;
  all five steps pass.
\<close>

theorem gatekeeper_verdict_is_first_failing_step_witness:
  "map fst
     (gateSteps (example_gate (Inl (Error ''boom'')) [''src/api/**''])
        \<lparr>write_path = ''src/db/x.ts'', write_content = ''x''\<rparr>
        \<lparr>write_intentId = Some ''INT-001'', write_workspaceRoot = ''/ws'',
         write_ownedScope = None, write_agentId = Some ''a1''\<rparr>)
     = [True, True, True, True, False] \<and>
   blocked
     (writeFilePreHook_with (example_gate (Inl (Error ''boom'')) [''src/api/**''])
        \<lparr>write_path = ''src/db/x.ts'', write_content = ''x''\<rparr>
        \<lparr>write_intentId = Some ''INT-001'', write_workspaceRoot = ''/ws'',
         write_ownedScope = None, write_agentId = Some ''a1''\<rparr>) = True \<and>
   writeFilePreHook_with (example_gate (Inr True) [''src/**''])
     \<lparr>write_path = ''src/a.ts'', write_content = ''x = 2'' @ [LF]\<rparr>
     \<lparr>write_intentId = Some ''INT-001'', write_workspaceRoot = ''/ws'',
      write_ownedScope = None, write_agentId = Some ''a1''\<rparr>
     = \<lparr>blocked = False, error = None\<rparr>"
proof -
  let ?G3 = "example_gate (Inl (Error ''boom'')) [''src/api/**'']"
  let ?a3 = "\<lparr>write_path = ''src/db/x.ts'', write_content = ''x''\<rparr>"
  let ?G1 = "example_gate (Inr True) [''src/**'']"
  let ?a1 = "\<lparr>write_path = ''src/a.ts'', write_content = ''x = 2'' @ [LF]\<rparr>"
  let ?ctx = "\<lparr>write_intentId = Some ''INT-001'', write_workspaceRoot = ''/ws'',
         write_ownedScope = None, write_agentId = Some ''a1''\<rparr>"
  have s3: "map fst (gateSteps ?G3 ?a3 ?ctx) = [True, True, True, True, False]"
    by code_simp
  have l3: "\<not> list_all fst (gateSteps ?G3 ?a3 ?ctx)"
    by code_simp
  have f1: "firstFailure (gateSteps ?G1 ?a1 ?ctx) = \<lparr>blocked = False, error = None\<rparr>"
    by code_simp
  note t3 = gatekeeper_verdict_is_first_failing_step
              [of ?G3 ?a3 ?ctx "example_platform []" "\<lambda>i. None" "\<lambda>w i. None"
                  "\<lambda>f pats w. False" empty_disk Map.empty]
  note t1 = gatekeeper_verdict_is_first_failing_step
              [of ?G1 ?a1 ?ctx "example_platform []" "\<lambda>i. None" "\<lambda>w i. None"
                  "\<lambda>f pats w. False" empty_disk Map.empty]
  from t3 l3 have b3: "blocked (writeFilePreHook_with ?G3 ?a3 ?ctx) = True" by blast
  from t1 f1 have b1: "writeFilePreHook_with ?G1 ?a1 ?ctx = \<lparr>blocked = False, error = None\<rparr>"
    by simp
  from s3 b3 b1 show ?thesis by blast
qed

text \<open>
  Scenario S2 through the tracker: agent \<open>a1\<close> has read \<open>src/a.ts\<close> when it held
  \<open>x = 1\<close>, the file now holds \<open>x = 2\<close>, and the gatekeeper blocks the write of \<open>a1\<close>
  with the stale-file message.
\<close>

lemma gatekeeper_blocks_stale_write:
  "writeFilePreHook (example_platform [])
     (getCachedIntent (example_gate (Inr True) [''src/**'']))
     (findIntentById (example_gate (Inr True) [''src/**'']))
     (matchesAnyGlobPattern (example_gate (Inr True) [''src/**'']))
     (\<lambda>q. if q = ''/ws/src/a.ts'' then File (''x = 2'' @ [LF]) else Absent)
     (snd (takeSnapshot (example_platform []) ''src/a.ts'' (''x = 1'' @ [LF]) ''a1'' ''/ws'' 0
             Map.empty))
     \<lparr>write_path = ''src/a.ts'', write_content = ''x = 3'' @ [LF]\<rparr>
     \<lparr>write_intentId = Some ''INT-001'', write_workspaceRoot = ''/ws'',
      write_ownedScope = None, write_agentId = Some ''a1''\<rparr>
   = \<lparr>blocked = True, error = Some (getStaleError ''src/a.ts'' ''a1'')\<rparr>"
  by code_simp

section \<open>The mutation classifier\<close>



section \<open>The \<open>record_lesson\<close> tool\<close>

lemma recordLesson_returns:
  assumes dir: "d (path_join P [ws, ''.orchestration'']) = Directory"
    and lessons: "d (getClaudePath P ws) = Absent \<or> (\<exists>c. d (getClaudePath P ws) = File c)"
  shows "\<exists>b. fst (recordLesson P nowIso ws category lesson d) = Inr b"
proof -
  have ens: "ensureOrchestrationDir P ws d = Inr d"
    using dir by (simp add: ensureOrchestrationDir_def fs_access_def Let_def)
  from lessons obtain existing where rd: "readClaudeBrain P ws d = Inr existing"
    by (auto simp: readClaudeBrain_def fs_readFile_def)
  from lessons have app: "\<exists>d2. appendToClaudeBrain P ws x d = (Inr (), d2)" for x
    by (auto simp: appendToClaudeBrain_def ens fs_appendFile_def Let_def)
  show ?thesis
  proof (cases "existing \<noteq> [] \<and>
                str_includes
                  (join [LF]
                     (drop (length (filter (\<lambda>s. trim s \<noteq> []) (split ''---'' existing)) - 5)
                        (filter (\<lambda>s. trim s \<noteq> []) (split ''---'' existing))))
                  (trim lesson)")
    case True
    then have "fst (recordLesson P nowIso ws category lesson d) = Inr False"
      by (simp add: recordLesson_def rd Let_def)
    then show ?thesis by blast
  next
    case False
    from app [of "formatLesson nowIso category lesson"] obtain d2 where
      "appendToClaudeBrain P ws (formatLesson nowIso category lesson) d = (Inr (), d2)"
      by blast
    with False show ?thesis by (auto simp: recordLesson_def rd Let_def)
  qed
qed

text \<open>
  Claim C5, as the specification has it: the tool accepts every category of the
  enumeration of nine, \<open>BUILD\<close> and \<open>USER_FEEDBACK\<close> among them. The tool's own list of
  valid categories, like the \<open>enum\<close> of its schema, has seven members; a call with
  \<open>BUILD\<close> or \<open>USER_FEEDBACK\<close>, both members of the store's type \<open>LessonCategory\<close>, gets
  the invalid-category error and counts as a mistake.
\<close>

theorem record_lesson_rejects_BUILD_and_USER_FEEDBACK:
  "''BUILD'' \<in> set LessonCategory \<and> ''USER_FEEDBACK'' \<in> set LessonCategory \<and>
   fst (execute (example_platform []) ''2026-11-02T10:00:00.000Z''
          \<lparr>param_category = Some ''BUILD'', param_lesson = Some ''the build needs node 20''\<rparr>
          \<lparr>consecutiveMistakeCount = 0, recordedToolErrors = [],
           didToolFailInCurrentTurn = False, cwd = ''/ws''\<rparr>
          empty_disk)
     = \<lparr>consecutiveMistakeCount = 1, recordedToolErrors = [''record_lesson''],
        didToolFailInCurrentTurn = True, cwd = ''/ws''\<rparr> \<and>
   snd (snd (execute (example_platform []) ''2026-11-02T10:00:00.000Z''
          \<lparr>param_category = Some ''BUILD'', param_lesson = Some ''the build needs node 20''\<rparr>
          \<lparr>consecutiveMistakeCount = 0, recordedToolErrors = [],
           didToolFailInCurrentTurn = False, cwd = ''/ws''\<rparr>
          empty_disk))
     = [ToolError (''Invalid category '' @ [CHR 0x27] @ ''BUILD'' @ [CHR 0x27] @
                   ''. Must be one of: ARCHITECTURE, TESTING, LINTER, STYLE, PERFORMANCE, SECURITY, GENERAL'')] \<and>
   snd (snd (execute (example_platform []) ''2026-11-02T10:00:00.000Z''
          \<lparr>param_category = Some ''USER_FEEDBACK'', param_lesson = Some ''prefer tabs''\<rparr>
          \<lparr>consecutiveMistakeCount = 0, recordedToolErrors = [],
           didToolFailInCurrentTurn = False, cwd = ''/ws''\<rparr>
          empty_disk))
     = [ToolError (''Invalid category '' @ [CHR 0x27] @ ''USER_FEEDBACK'' @ [CHR 0x27] @
                   ''. Must be one of: ARCHITECTURE, TESTING, LINTER, STYLE, PERFORMANCE, SECURITY, GENERAL'')]"
  by code_simp

text \<open>
  Claim C5, amended. For every category among \<open>ARCHITECTURE\<close>, \<open>TESTING\<close>, \<open>LINTER\<close>,
  \<open>STYLE\<close>, \<open>PERFORMANCE\<close>, \<open>SECURITY\<close>, \<open>GENERAL\<close> and every non-empty lesson, the tool
  accepts the call: the task is left as it was (no mistake counted, no tool error
  recorded) and no tool error is returned. What it returns follows the lessons store:
  the recorded text when the store records, the duplicate-skipped text when the store
  skips, and the error handed to \<open>handleError\<close> when the store throws. The store does
  not throw when the orchestration directory exists and the lessons file is a file or
  does not exist yet.
\<close>

theorem record_lesson_accepts_listed_categories:
  assumes cat: "category \<in> set validCategories"
    and les: "lesson \<noteq> []"
  shows
    "fst (execute P nowIso \<lparr>param_category = Some category, param_lesson = Some lesson\<rparr> t d)
       = t \<and>
     snd (snd (execute P nowIso
                 \<lparr>param_category = Some category, param_lesson = Some lesson\<rparr> t d)) =
       (case fst (recordLesson P nowIso (cwd t) category lesson d) of
          Inr recorded \<Rightarrow>
            if recorded
            then [ToolResult (''Lesson recorded in CLAUDE.md under ['' @ category @ '']'')]
            else [ToolResult ''Lesson skipped (duplicate detected)'']
        | Inl e \<Rightarrow> [HandledError ''record lesson'' e]) \<and>
     (d (path_join P [cwd t, ''.orchestration'']) = Directory \<and>
      (d (getClaudePath P (cwd t)) = Absent \<or> (\<exists>c. d (getClaudePath P (cwd t)) = File c))
      \<longrightarrow>
        snd (snd (execute P nowIso
                    \<lparr>param_category = Some category, param_lesson = Some lesson\<rparr> t d))
          \<in> {[ToolResult (''Lesson recorded in CLAUDE.md under ['' @ category @ '']'')],
              [ToolResult ''Lesson skipped (duplicate detected)'']})"
proof -
  have ne: "category \<noteq> []" using cat by (auto simp: validCategories_def)
  let ?x = "execute P nowIso \<lparr>param_category = Some category, param_lesson = Some lesson\<rparr> t d"
  let ?r = "recordLesson P nowIso (cwd t) category lesson d"
  have ex: "?x = (case ?r of
                    (Inl e, d1) \<Rightarrow> (t, d1, [HandledError ''record lesson'' e])
                  | (Inr recorded, d1) \<Rightarrow>
                      if recorded then
                        (t, d1, [ToolResult (''Lesson recorded in CLAUDE.md under ['' @ category @ '']'')])
                      else (t, d1, [ToolResult ''Lesson skipped (duplicate detected)'']))"
    using cat les ne by (simp add: execute_def Let_def)
  have a: "fst ?x = t"
    unfolding ex by (simp split: prod.splits sum.splits)
  have b: "snd (snd ?x) =
       (case fst ?r of
          Inr recorded \<Rightarrow>
            if recorded
            then [ToolResult (''Lesson recorded in CLAUDE.md under ['' @ category @ '']'')]
            else [ToolResult ''Lesson skipped (duplicate detected)'']
        | Inl e \<Rightarrow> [HandledError ''record lesson'' e])"
    unfolding ex by (simp split: prod.splits sum.splits)
  have c: "snd (snd ?x)
          \<in> {[ToolResult (''Lesson recorded in CLAUDE.md under ['' @ category @ '']'')],
              [ToolResult ''Lesson skipped (duplicate detected)'']}"
    if "d (path_join P [cwd t, ''.orchestration'']) = Directory"
      and "d (getClaudePath P (cwd t)) = Absent \<or> (\<exists>c. d (getClaudePath P (cwd t)) = File c)"
  proof -
    from recordLesson_returns [OF that] obtain r where "fst ?r = Inr r" by blast
    then show ?thesis unfolding b by simp
  qed
  from a b c show ?thesis by blast
qed

text \<open>
  Scenario S5: \<open>TESTING\<close>, "auth requires mock JWT", on a workspace whose orchestration
  directory exists and holds no lessons file: the first call records, the repeat is
  skipped, and neither counts as a mistake.
\<close>

theorem record_lesson_accepts_listed_categories_witness:
  "''TESTING'' \<in> set validCategories \<and> ''auth requires mock JWT'' \<noteq> [] \<and>
   fst (execute (example_platform []) ''2026-11-02T10:00:00.000Z''
          \<lparr>param_category = Some ''TESTING'', param_lesson = Some ''auth requires mock JWT''\<rparr>
          \<lparr>consecutiveMistakeCount = 0, recordedToolErrors = [],
           didToolFailInCurrentTurn = False, cwd = ''/ws''\<rparr>
          (empty_disk(''/ws/.orchestration'' := Directory)))
     = \<lparr>consecutiveMistakeCount = 0, recordedToolErrors = [],
        didToolFailInCurrentTurn = False, cwd = ''/ws''\<rparr> \<and>
   snd (snd (execute (example_platform []) ''2026-11-02T10:00:00.000Z''
          \<lparr>param_category = Some ''TESTING'', param_lesson = Some ''auth requires mock JWT''\<rparr>
          \<lparr>consecutiveMistakeCount = 0, recordedToolErrors = [],
           didToolFailInCurrentTurn = False, cwd = ''/ws''\<rparr>
          (empty_disk(''/ws/.orchestration'' := Directory))))
     = [ToolResult ''Lesson recorded in CLAUDE.md under [TESTING]''] \<and>
   snd (snd (execute (example_platform []) ''2026-11-02T10:00:00.000Z''
          \<lparr>param_category = Some ''TESTING'', param_lesson = Some ''auth requires mock JWT''\<rparr>
          \<lparr>consecutiveMistakeCount = 0, recordedToolErrors = [],
           didToolFailInCurrentTurn = False, cwd = ''/ws''\<rparr>
          (fst (snd (execute (example_platform []) ''2026-11-02T10:00:00.000Z''
             \<lparr>param_category = Some ''TESTING'',
                param_lesson = Some ''auth requires mock JWT''\<rparr>
             \<lparr>consecutiveMistakeCount = 0, recordedToolErrors = [],
              didToolFailInCurrentTurn = False, cwd = ''/ws''\<rparr>
             (empty_disk(''/ws/.orchestration'' := Directory)))))))
     = [ToolResult ''Lesson skipped (duplicate detected)'']"
proof -
  let ?P = "example_platform []"
  let ?now = "''2026-11-02T10:00:00.000Z''"
  let ?l = "''auth requires mock JWT''"
  let ?params = "\<lparr>param_category = Some ''TESTING'', param_lesson = Some ?l\<rparr>"
  let ?t = "\<lparr>consecutiveMistakeCount = 0, recordedToolErrors = [],
             didToolFailInCurrentTurn = False, cwd = ''/ws''\<rparr>"
  let ?d0 = "empty_disk(''/ws/.orchestration'' := Directory)"
  let ?d1 = "fst (snd (execute ?P ?now ?params ?t ?d0))"
  have cat: "''TESTING'' \<in> set validCategories" by (simp add: validCategories_def)
  have les: "?l \<noteq> []" by simp
  have r0: "fst (recordLesson ?P ?now (cwd ?t) ''TESTING'' ?l ?d0) = Inr True"
    by code_simp
  have r1: "fst (recordLesson ?P ?now (cwd ?t) ''TESTING'' ?l ?d1) = Inr False"
    by code_simp
  from record_lesson_accepts_listed_categories [OF cat les, of ?P ?now ?t ?d0] r0
  have a: "fst (execute ?P ?now ?params ?t ?d0) = ?t"
    and b: "snd (snd (execute ?P ?now ?params ?t ?d0))
              = [ToolResult ''Lesson recorded in CLAUDE.md under [TESTING]'']"
    by simp_all
  from record_lesson_accepts_listed_categories [OF cat les, of ?P ?now ?t ?d1] r1
  have c: "snd (snd (execute ?P ?now ?params ?t ?d1))
              = [ToolResult ''Lesson skipped (duplicate detected)'']"
    by simp
  from cat les a b c show ?thesis by blast
qed

section \<open>The post-write recorder\<close>

lemma ensureOrchestrationDir_exists:
  "d (path_join P [ws, ''.orchestration'']) = Directory \<Longrightarrow>
   ensureOrchestrationDir P ws d = Inr d"
  by (simp add: ensureOrchestrationDir_def fs_access_def Let_def)

lemma updateIntentMap_frame:
  assumes dir: "d (path_join P [ws, ''.orchestration'']) = Directory"
    and other: "p \<noteq> getMapPath P ws"
  shows "snd (updateIntentMap P rebuild ws intentId filePath d) p = d p"
proof -
  have ens: "ensureOrchestrationDir P ws d = Inr d"
    using dir by (simp add: ensureOrchestrationDir_def fs_access_def Let_def)
  show ?thesis
    using other
    by (auto simp: updateIntentMap_def ens Let_def fs_writeFile_def
          split: sum.splits fnode.splits)
qed

text \<open>
  With an intent in the context, an existing orchestration directory and a trace file
  that is a file or does not exist yet, a run of the recorder adds one line to the trace
  file: the serialisation of the entry it builds.
\<close>

lemma writeFilePostHook_appends_built_entry:
  assumes intent: "post_intentId ctx = Some intentId" "intentId \<noteq> []"
    and wsr: "post_workspaceRoot ctx = Some ws"
    and dir: "r_disk st (path_join P [ws, ''.orchestration'']) = Directory"
    and led: "r_disk st (getTracePath P ws) = File c \<or>
              (r_disk st (getTracePath P ws) = Absent \<and> c = [])"
    and distinct: "getMapPath P ws \<noteq> getTracePath P ws"
  shows "r_disk (writeFilePostHook P rebuild env args ctx st) (getTracePath P ws) =
           File (c @ JSON_stringify P
                       (entry_json
                          (buildTraceEntry P env args ctx intentId
                             (fst (getCurrentRevision (env_revParse env) ws (env_now env)
                                     (r_gitCache st))))) @ [LF])"
proof -
  let ?tp = "getTracePath P ws"
  let ?d = "r_disk st"
  obtain rev cache1 where
    g: "getCurrentRevision (env_revParse env) ws (env_now env) (r_gitCache st) = (rev, cache1)"
    by (cases "getCurrentRevision (env_revParse env) ws (env_now env) (r_gitCache st)")
  let ?E = "buildTraceEntry P env args ctx intentId rev"
  let ?line = "JSON_stringify P (entry_json ?E) @ [LF]"
  let ?d1 = "?d(?tp := File (c @ ?line))"
  have ne: "path_join P [ws, ''.orchestration''] \<noteq> ?tp"
    using dir led by auto
  have ens: "ensureOrchestrationDir P ws ?d = Inr ?d"
    using dir by (simp add: ensureOrchestrationDir_def fs_access_def Let_def)
  have app: "appendToTraceLog P ws (entry_json ?E) ?d = (Inr (), ?d1)"
    using led
    by (auto simp: appendToTraceLog_def entry_json_valid ens fs_appendFile_def Let_def)
  have dir1: "?d1 (path_join P [ws, ''.orchestration'']) = Directory"
    using dir ne by simp
  have keep: "snd (updateIntentMap P rebuild ws intentId (post_path args) ?d1) ?tp = ?d1 ?tp"
    using updateIntentMap_frame [where d = ?d1 and P = P and ws = ws and p = ?tp, OF dir1]
      distinct
    by simp
  have "r_disk (writeFilePostHook P rebuild env args ctx st) ?tp
          = snd (updateIntentMap P rebuild ws intentId (post_path args) ?d1) ?tp"
    using intent wsr g app
    by (simp add: writeFilePostHook_def Let_def split: prod.splits sum.splits)
  with keep g show ?thesis by simp
qed

lemma S1_line_count: "split [LF] (''x = 2'' @ [LF]) = [''x = 2'', []]"
  by code_simp

lemma S1_hash:
  "computeContentHash H (''x = 2'' @ [LF]) (Some 1) (Some 2) = sha256 H (''x = 2'' @ [LF])"
proof -
  have n: "normalizeLineEndings (''x = 2'' @ [LF]) = ''x = 2'' @ [LF]"
    by (simp add: normalizeLineEndings_def replace_cr_def)
  have "int (length (split [LF] (normalizeLineEndings (''x = 2'' @ [LF])))) = 2"
    unfolding n S1_line_count by simp
  with computeContentHash_all_lines [of H "''x = 2'' @ [LF]"] show ?thesis by simp
qed

text \<open>
  Claim C2, as the specification has it: in scenario S1 the single range of the entry is
  \<open>{1, 1, "sha256:" + digest("x = 2")}\<close>. The content written is \<open>x = 2\<close> followed by a
  newline, which \<open>split("\n")\<close> cuts into two pieces, so the recorder counts two lines
  and hashes the content with its newline. On the example platform (whose digest returns
  its input) the trace file after the run is the one line below.
\<close>

theorem post_hook_S1_records_two_lines:
  "r_disk
     (writeFilePostHook (example_platform []) (\<lambda>old intentId filePath. []) example_env
        \<lparr>post_path = ''src/a.ts'', post_content = ''x = 2'' @ [LF], post_mutation_class = None\<rparr>
        \<lparr>post_intentId = Some ''INT-001'', post_workspaceRoot = Some ''/ws'',
         post_sessionId = Some ''session-1'', post_modelIdentifier = None,
         post_oldContent = Some (''x = 1'' @ [LF]), post_agentId = Some ''a1''\<rparr>
        \<lparr>r_disk = empty_disk, r_snapshots = Map.empty, r_gitCache = Map.empty\<rparr>)
     ''/ws/.orchestration/agent_trace.jsonl''
   = File
       (compactJson
          (entry_json
             \<lparr>entry_id = ''550e8400-e29b-41d4-a716-446655440000'',
              timestamp = ''2026-02-21T12:00:00.000Z'',
              vcs_revision_id = ''unknown'',
              files =
                [\<lparr>relative_path = ''src/a.ts'',
                  conversations =
                    [\<lparr>url = ''session-1'',
                      contributor = \<lparr>entity_type = AI, model_identifier = Some ''unknown''\<rparr>,
                      ranges = [\<lparr>start_line = 1, end_line = 2,
                                 content_hash = ''sha256:x = 2'' @ [LF]\<rparr>],
                      related = [\<lparr>related_type = Specification,
                                  related_value = ''INT-001''\<rparr>]\<rparr>]\<rparr>],
              mutation_class = Some AST_REFACTOR\<rparr>) @ [LF])"
  by code_simp

text \<open>
  Claim C2, amended. In scenario S1 (the agent writes \<open>x = 2\<close> and a newline to
  \<open>src/a.ts\<close> under intent \<open>INT-001\<close>) the recorder appends exactly one ledger entry. Its
  one file has the path \<open>src/a.ts\<close>; its single range is \<open>{start_line: 1, end_line: 2,
  content_hash: "sha256:" + digest(content)}\<close>, where the digest is that of the whole
  content written, final newline included; its related list is
  \<open>[{specification, "INT-001"}]\<close>. The line count is \<open>max(1, split("\n").length)\<close> of the
  content, which counts the empty piece after the final newline.
\<close>

theorem post_hook_S1_ledger_entry:
  assumes intent: "post_intentId ctx = Some ''INT-001''"
    and wsr: "post_workspaceRoot ctx = Some ws"
    and path: "post_path args = ''src/a.ts''"
    and content: "post_content args = ''x = 2'' @ [LF]"
    and dir: "r_disk st (path_join P [ws, ''.orchestration'']) = Directory"
    and led: "r_disk st (getTracePath P ws) = File c \<or>
              (r_disk st (getTracePath P ws) = Absent \<and> c = [])"
    and distinct: "getMapPath P ws \<noteq> getTracePath P ws"
  shows "\<exists>E. r_disk (writeFilePostHook P rebuild env args ctx st) (getTracePath P ws) =
               File (c @ JSON_stringify P (entry_json E) @ [LF]) \<and>
             map relative_path (files E) = [''src/a.ts''] \<and>
             map ranges (concat (map conversations (files E))) =
               [[\<lparr>start_line = 1, end_line = 2,
                  content_hash = ''sha256:'' @ sha256 (digest P) (''x = 2'' @ [LF])\<rparr>]] \<and>
             map related (concat (map conversations (files E))) =
               [[\<lparr>related_type = Specification, related_value = ''INT-001''\<rparr>]] \<and>
             end_line (hd (hd (map ranges (concat (map conversations (files E))))))
               = max 1 (int (length (split [LF] (post_content args))))"
proof -
  let ?E = "buildTraceEntry P env args ctx ''INT-001''
              (fst (getCurrentRevision (env_revParse env) ws (env_now env) (r_gitCache st)))"
  have ne: "''INT-001'' \<noteq> []" by simp
  have a: "r_disk (writeFilePostHook P rebuild env args ctx st) (getTracePath P ws) =
             File (c @ JSON_stringify P (entry_json ?E) @ [LF])"
    by (rule writeFilePostHook_appends_built_entry [OF intent ne wsr dir led distinct])
  have b: "map relative_path (files ?E) = [''src/a.ts'']"
    by (simp add: buildTraceEntry_def Let_def path)
  define x where "x = ''x = 2'' @ [LF]"
  have content': "post_content args = x"
    by (simp add: content x_def)
  have lc: "split [LF] x = [''x = 2'', []]"
    unfolding x_def by (rule S1_line_count)
  have h: "computeContentHash (digest P) x (Some 1) (Some 2) = sha256 (digest P) x"
    unfolding x_def by (rule S1_hash)
  have "map ranges (concat (map conversations (files ?E))) =
               [[\<lparr>start_line = 1, end_line = 2,
                  content_hash = ''sha256:'' @ sha256 (digest P) x\<rparr>]]"
    by (simp add: buildTraceEntry_def Let_def content' lc h)
  then have c: "map ranges (concat (map conversations (files ?E))) =
               [[\<lparr>start_line = 1, end_line = 2,
                  content_hash = ''sha256:'' @ sha256 (digest P) (''x = 2'' @ [LF])\<rparr>]]"
    unfolding x_def .
  have d: "map related (concat (map conversations (files ?E))) =
               [[\<lparr>related_type = Specification, related_value = ''INT-001''\<rparr>]]"
    by (simp add: buildTraceEntry_def Let_def)
  have e: "end_line (hd (hd (map ranges (concat (map conversations (files ?E))))))
               = max 1 (int (length (split [LF] (post_content args))))"
    by (simp add: buildTraceEntry_def Let_def)
  show ?thesis
    by (rule exI [of _ ?E]) (intro conjI a b c d e)
qed

text \<open>
  Scenario S1 on the example platform, in a workspace whose orchestration directory
  exists and whose ledger does not exist yet.
\<close>

theorem post_hook_S1_ledger_entry_witness:
  "getMapPath (example_platform []) ''/ws'' \<noteq> getTracePath (example_platform []) ''/ws'' \<and>
   (empty_disk(''/ws/.orchestration'' := Directory))
     (path_join (example_platform []) [''/ws'', ''.orchestration'']) = Directory \<and>
   (empty_disk(''/ws/.orchestration'' := Directory))
     (getTracePath (example_platform []) ''/ws'') = Absent \<and>
   (\<exists>E. r_disk
          (writeFilePostHook (example_platform []) (\<lambda>old intentId filePath. []) example_env
             \<lparr>post_path = ''src/a.ts'', post_content = ''x = 2'' @ [LF],
              post_mutation_class = None\<rparr>
             \<lparr>post_intentId = Some ''INT-001'', post_workspaceRoot = Some ''/ws'',
              post_sessionId = Some ''session-1'', post_modelIdentifier = None,
              post_oldContent = Some (''x = 1'' @ [LF]), post_agentId = Some ''a1''\<rparr>
             \<lparr>r_disk = empty_disk(''/ws/.orchestration'' := Directory),
              r_snapshots = Map.empty, r_gitCache = Map.empty\<rparr>)
          (getTracePath (example_platform []) ''/ws'')
          = File ([] @ JSON_stringify (example_platform []) (entry_json E) @ [LF]) \<and>
        map relative_path (files E) = [''src/a.ts''] \<and>
        map ranges (concat (map conversations (files E))) =
          [[\<lparr>start_line = 1, end_line = 2,
             content_hash =
               ''sha256:'' @ sha256 (digest (example_platform [])) (''x = 2'' @ [LF])\<rparr>]] \<and>
        map related (concat (map conversations (files E))) =
          [[\<lparr>related_type = Specification, related_value = ''INT-001''\<rparr>]] \<and>
        end_line (hd (hd (map ranges (concat (map conversations (files E))))))
          = max 1 (int (length (split [LF]
              (post_content \<lparr>post_path = ''src/a.ts'', post_content = ''x = 2'' @ [LF],
                              post_mutation_class = None\<rparr>)))))"
proof -
  let ?P = "example_platform []"
  let ?args = "\<lparr>post_path = ''src/a.ts'', post_content = ''x = 2'' @ [LF],
                 post_mutation_class = None\<rparr>"
  let ?ctx = "\<lparr>post_intentId = Some ''INT-001'', post_workspaceRoot = Some ''/ws'',
                post_sessionId = Some ''session-1'', post_modelIdentifier = None,
                post_oldContent = Some (''x = 1'' @ [LF]), post_agentId = Some ''a1''\<rparr>"
  let ?d = "empty_disk(''/ws/.orchestration'' := Directory)"
  let ?st = "\<lparr>r_disk = ?d, r_snapshots = Map.empty, r_gitCache = Map.empty\<rparr>"
  have distinct: "getMapPath ?P ''/ws'' \<noteq> getTracePath ?P ''/ws''" by code_simp
  have dir: "?d (path_join ?P [''/ws'', ''.orchestration'']) = Directory" by code_simp
  have abs: "?d (getTracePath ?P ''/ws'') = Absent" by code_simp
  have intent: "post_intentId ?ctx = Some ''INT-001''" by simp
  have wsr: "post_workspaceRoot ?ctx = Some ''/ws''" by simp
  have path: "post_path ?args = ''src/a.ts''" by simp
  have content: "post_content ?args = ''x = 2'' @ [LF]" by simp
  have dir': "r_disk ?st (path_join ?P [''/ws'', ''.orchestration'']) = Directory"
    using dir by simp
  have led: "r_disk ?st (getTracePath ?P ''/ws'') = File [] \<or>
             (r_disk ?st (getTracePath ?P ''/ws'') = Absent \<and> [] = ([]::string))"
    using abs by simp
  note t = post_hook_S1_ledger_entry
             [of ?ctx "''/ws''" ?args ?st ?P "[]" "\<lambda>old intentId filePath. []" example_env,
              OF intent wsr path content dir' led distinct]
  from distinct dir abs t show ?thesis by (intro conjI)
qed

end
